theory Spec2Isabelle
  imports Complex_Main "HOL-Library.Product_Lexorder" "HOL-Library.Sublist"
begin

section \<open>Values shared by the pipeline\<close>

text \<open>
  A Python exception (any subclass of \<open>Exception\<close>) is a value carrying its message.
  A function of the source that may raise returns \<open>exn + 'a\<close>, with \<open>Inl\<close> the exception
  that reaches its caller. Python floats are read as reals: only their order is used.
  Logging calls and the choice of model identifiers and region from the process
  environment are left out: they do not reach any returned value. The SDK modules that
  the function bodies import are taken as installed.
\<close>

datatype exn = Exn string

type_synonym vector = "real list"

text \<open>\<open>hasattr(obj, name)\<close>: an attribute is missing or carries a value.\<close>

datatype 'a attr = Missing | Attr 'a

section \<open>The relational store\<close>

text \<open>
  Modelled from the spec: the DDL of \<open>doc_ingest_jobs\<close> and \<open>doc_chunks\<close> is not part of
  the sources. The records hold the columns that the statements of
  \<open>search_chunks_by_doc\<close> name, with the data model of the spec: a chunk belongs to the
  job whose identifier it carries, its text is a large text, its embedding vector may be
  null. A nullable column is an \<open>option\<close>, \<open>None\<close> being SQL NULL.
\<close>

record ingest_job =
  j_job_id :: nat
  j_object_name :: "string option"

record chunk =
  c_job_id :: nat
  c_chunk_id :: nat
  c_chunk_text :: "string option"
  c_embed_vector :: "vector option"

record tables =
  doc_ingest_jobs :: "ingest_job list"
  doc_chunks :: "chunk list"

text \<open>
  The statements that \<open>execute_query\<close> receives: the two statements built by
  \<open>search_chunks_by_doc\<close>, with their bind parameters, and any other SQL text.
\<close>

datatype statement =
    Count_sql string                  \<comment> \<open>\<open>count_sql\<close>, \<open>:doc_name\<close>\<close>
  | Search_sql string string int      \<comment> \<open>\<open>sql\<close>, \<open>:query_vector\<close>, \<open>:doc_name\<close>, \<open>:top_k\<close>\<close>
  | Other_sql string

text \<open>
  A fetched row: the one column of the count statement, or the five columns of the
  vector search (\<open>job_id\<close>, \<open>chunk_id\<close>, \<open>chunk_text\<close>, \<open>similarity\<close>, \<open>object_name\<close>).
\<close>

datatype row =
    Count_row nat
  | Chunk_row nat nat "string option" "real option" "string option"

datatype fetched = One "row option" | All "row list" | Nothing

section \<open>External calls and the world\<close>

datatype event =
    Embed_text "string list"          \<comment> \<open>\<open>client.embed_text(details)\<close> with these inputs\<close>
  | Cursor_execute statement          \<comment> \<open>\<open>cursor.execute(query, params)\<close>\<close>
  | Commit                            \<comment> \<open>\<open>conn.commit()\<close>\<close>
  | Chat_with_context string string   \<comment> \<open>\<open>chat_with_context(context=, question=)\<close> entered\<close>
  | Client_chat string                \<comment> \<open>\<open>client.chat(details)\<close> with this message\<close>

record world =
  store :: tables                     \<comment> \<open>the durable content of the database\<close>
  calls :: "event list"               \<comment> \<open>the external calls made so far, oldest first\<close>

definition emit :: "event \<Rightarrow> world \<Rightarrow> world" where
  "emit ev w = w\<lparr>calls := calls w @ [ev]\<rparr>"

text \<open>The shape of the object that the hosted embedding service answers with.\<close>

record embed_data =
  ed_embeddings :: "vector list attr"

record embed_response =
  er_data :: "embed_data attr"
  er_embeddings :: "vector list attr"

text \<open>The shape of the object that the hosted chat service answers with.\<close>

record chat_message =
  cm_content :: "string option attr"

record chat_response =
  cr_message :: "chat_message attr"
  cr_content :: "string option attr"
  cr_text :: "string option attr"

record chat_data =
  cd_chat_response :: "chat_response attr"
  cd_content :: "string option attr"

record chat_reply =
  rp_data :: "chat_data attr"
  rp_content :: "string option attr"

text \<open>
  The collaborators outside the repository, as parameters: the hosted services, the
  built-ins of the database that the SQL text calls, Python's \<open>str\<close> on a float, and
  the failures that the driver and the SDK can raise.
\<close>

record env =
  embed_text :: "string list \<Rightarrow> exn + embed_response"
  str_float :: "real \<Rightarrow> string"
  to_vector :: "string \<Rightarrow> vector"
  vector_distance :: "vector \<Rightarrow> vector \<Rightarrow> real"
  pool_acquire :: "exn option"
  db_fault :: "statement \<Rightarrow> exn option"
  other_sql :: "string \<Rightarrow> tables \<Rightarrow> exn + (row list option \<times> tables)"
  oci_config :: "exn option"
  chat_client :: "exn option"
  client_chat :: "string \<Rightarrow> exn + chat_reply"

section \<open>Embedding adapter (utils/oci\_embedding.py)\<close>

definition get_embeddings ::
  "env \<Rightarrow> string list \<Rightarrow> world \<Rightarrow> (exn + vector list) \<times> world" where
  "get_embeddings env texts w =
     (if texts = [] then (Inr [], w)
      else
        let w1 = emit (Embed_text texts) w in
        (case embed_text env texts of
           Inl e \<Rightarrow> (Inl e, w1)
         | Inr response \<Rightarrow>
             (case er_data response of
                Attr d \<Rightarrow>
                  (case ed_embeddings d of
                     Attr v \<Rightarrow> (Inr v, w1)
                   | Missing \<Rightarrow>
                       (case er_embeddings response of
                          Attr v \<Rightarrow> (Inr v, w1)
                        | Missing \<Rightarrow> (Inr [], w1)))
              | Missing \<Rightarrow>
                  (case er_embeddings response of
                     Attr v \<Rightarrow> (Inr v, w1)
                   | Missing \<Rightarrow> (Inr [], w1)))))"

section \<open>Data store gateway (utils/oracle\_db.py) and the SQL it is given\<close>

text \<open>
  A Python \<open>str\<close> bound to a character parameter: the database reads the empty string
  as NULL.
\<close>

definition bind_str :: "string \<Rightarrow> string option" where
  "bind_str s = (if s = [] then None else Some s)"

text \<open>\<open>a = b\<close> in a WHERE clause holds only when both sides are non-null and equal.\<close>

definition sql_eq :: "string option \<Rightarrow> string option \<Rightarrow> bool" where
  "sql_eq a b =
     (case a of None \<Rightarrow> False
      | Some x \<Rightarrow> (case b of None \<Rightarrow> False | Some y \<Rightarrow> x = y))"

text \<open>
  \<open>DBMS_LOB.SUBSTR(lob, amount, offset)\<close>: \<open>amount\<close> characters from the 1-based
  \<open>offset\<close>; NULL for a null or exhausted lob and for arguments below 1.
\<close>

definition dbms_lob_substr :: "string option \<Rightarrow> nat \<Rightarrow> nat \<Rightarrow> string option" where
  "dbms_lob_substr lob amount offset =
     (case lob of
        None \<Rightarrow> None
      | Some s \<Rightarrow>
          if amount < 1 \<or> offset < 1 then None
          else bind_str (take amount (drop (offset - 1) s)))"

text \<open>\<open>FROM doc_chunks c JOIN doc_ingest_jobs j ON j.job_id = c.job_id\<close>\<close>

definition joined :: "tables \<Rightarrow> (chunk \<times> ingest_job) list" where
  "joined t =
     concat (map (\<lambda>c. map (Pair c) (filter (\<lambda>j. j_job_id j = c_job_id c) (doc_ingest_jobs t)))
                 (doc_chunks t))"

text \<open>\<open>WHERE j.object_name = :doc_name AND c.embed_vector IS NOT NULL\<close>\<close>

definition hit :: "string \<Rightarrow> chunk \<times> ingest_job \<Rightarrow> bool" where
  "hit doc_name cj =
     (sql_eq (j_object_name (snd cj)) (bind_str doc_name) \<and> c_embed_vector (fst cj) \<noteq> None)"

text \<open>\<open>vector_distance(c.embed_vector, TO_VECTOR(:query_vector), COSINE)\<close>: null on a null vector.\<close>

definition similarity_expr :: "env \<Rightarrow> string \<Rightarrow> chunk \<Rightarrow> real option" where
  "similarity_expr env query_vector c =
     map_option (\<lambda>v. vector_distance env v (to_vector env query_vector)) (c_embed_vector c)"

text \<open>The select list of the vector search, for one joined row.\<close>

definition select_row :: "env \<Rightarrow> string \<Rightarrow> chunk \<times> ingest_job \<Rightarrow> row" where
  "select_row env query_vector cj =
     Chunk_row
       (c_job_id (fst cj))
       (c_chunk_id (fst cj))
       (dbms_lob_substr (c_chunk_text (fst cj)) 8000 1)
       (similarity_expr env query_vector (fst cj))
       (j_object_name (snd cj))"

text \<open>
  \<open>ORDER BY similarity\<close>: ascending, nulls last. The key pairs "is null" with the
  value, compared lexicographically.
\<close>

fun similarity_key :: "row \<Rightarrow> bool \<times> real" where
  "similarity_key (Chunk_row _ _ _ None _) = (True, 0)"
| "similarity_key (Chunk_row _ _ _ (Some d) _) = (False, d)"
| "similarity_key (Count_row _) = (True, 0)"

definition count_rows :: "tables \<Rightarrow> string \<Rightarrow> row list" where
  "count_rows t doc_name = [Count_row (length (filter (hit doc_name) (joined t)))]"

text \<open>
  The vector search: join, filter, project, order, \<open>FETCH FIRST :top_k ROWS ONLY\<close>
  (no row for a bound below 1). Rows of equal distance keep the order of the tables.
\<close>

definition search_rows :: "env \<Rightarrow> tables \<Rightarrow> string \<Rightarrow> string \<Rightarrow> int \<Rightarrow> row list" where
  "search_rows env t query_vector doc_name top_k =
     take (nat top_k)
       (sort_key similarity_key
          (map (select_row env query_vector) (filter (hit doc_name) (joined t))))"

text \<open>
  \<open>cursor.execute\<close>: the failure the driver raises for this statement, if any; else the
  rows of a query (\<open>None\<close> for a statement that returns no rows) and the tables as the
  session sees them afterwards.
\<close>

definition cursor_execute ::
  "env \<Rightarrow> tables \<Rightarrow> statement \<Rightarrow> exn + (row list option \<times> tables)" where
  "cursor_execute env t stmt =
     (case db_fault env stmt of
        Some e \<Rightarrow> Inl e
      | None \<Rightarrow>
          (case stmt of
             Count_sql doc_name \<Rightarrow> Inr (Some (count_rows t doc_name), t)
           | Search_sql query_vector doc_name top_k \<Rightarrow>
               Inr (Some (search_rows env t query_vector doc_name top_k), t)
           | Other_sql text \<Rightarrow> other_sql env text t))"

definition not_a_query :: exn where
  "not_a_query = Exn ''DPY-1003: the executed statement does not return rows''"

text \<open>
  \<open>DatabaseManager.execute_query\<close>. The connection goes back to the pool in the
  \<open>finally\<close> block, which rolls back what was not committed: the store changes only
  under \<open>commit\<close>.
\<close>

definition execute_query ::
  "env \<Rightarrow> statement \<Rightarrow> bool \<Rightarrow> bool \<Rightarrow> bool \<Rightarrow> world \<Rightarrow> (exn + fetched) \<times> world" where
  "execute_query env query fetch_one fetch_all commit w =
     (case pool_acquire env of
        Some e \<Rightarrow> (Inl e, w)
      | None \<Rightarrow>
          let w1 = emit (Cursor_execute query) w in
          (case cursor_execute env (store w1) query of
             Inl e \<Rightarrow> (Inl e, w1)
           | Inr (rows, t) \<Rightarrow>
               let w2 = (if commit then emit Commit (w1\<lparr>store := t\<rparr>) else w1) in
               if fetch_one then
                 (case rows of
                    None \<Rightarrow> (Inl not_a_query, w2)
                  | Some rs \<Rightarrow> (Inr (One (case rs of [] \<Rightarrow> None | r # _ \<Rightarrow> Some r)), w2))
               else if fetch_all then
                 (case rows of
                    None \<Rightarrow> (Inl not_a_query, w2)
                  | Some rs \<Rightarrow> (Inr (All rs), w2))
               else (Inr Nothing, w2)))"

section \<open>Retrieval engine (knowledge\_bot.py)\<close>

record query_result =
  job_id :: nat
  chunk_id :: nat
  chunk_text :: string
  similarity :: "real option"
  object_name :: string

text \<open>\<open>sep.join(items)\<close>: the items in order, the separator before each but the first.\<close>

definition str_join :: "string \<Rightarrow> string list \<Rightarrow> string" where
  "str_join sep items =
     (case items of [] \<Rightarrow> [] | x # rest \<Rightarrow> foldl (\<lambda>acc s. acc @ sep @ s) x rest)"

text \<open>\<open>x or ""\<close> on a nullable string.\<close>

definition or_empty :: "string option \<Rightarrow> string" where
  "or_empty x = (case x of None \<Rightarrow> [] | Some s \<Rightarrow> s)"

definition embedding_str :: "env \<Rightarrow> vector \<Rightarrow> string" where
  "embedding_str env query_embedding =
     ''['' @ str_join '','' (map (str_float env) query_embedding) @ '']''"

text \<open>
  One element of the list comprehension over the fetched rows; a row with fewer
  columns than the comprehension indexes raises.
\<close>

fun to_result :: "row \<Rightarrow> exn + query_result" where
  "to_result (Chunk_row a b t d n) =
     Inr \<lparr>job_id = a, chunk_id = b, chunk_text = or_empty t, similarity = d,
          object_name = or_empty n\<rparr>"
| "to_result (Count_row n) = Inl (Exn ''IndexError: tuple index out of range'')"

fun to_results :: "row list \<Rightarrow> exn + query_result list" where
  "to_results [] = Inr []"
| "to_results (r # rs) =
     (case to_result r of
        Inl e \<Rightarrow> Inl e
      | Inr q \<Rightarrow> (case to_results rs of Inl e \<Rightarrow> Inl e | Inr qs \<Rightarrow> Inr (q # qs)))"

definition search_chunks_by_doc ::
  "env \<Rightarrow> string \<Rightarrow> string \<Rightarrow> int \<Rightarrow> world \<Rightarrow> (exn + query_result list) \<times> world" where
  "search_chunks_by_doc env doc_name query top_k w =
     (case get_embeddings env [query] w of
        (Inl e, w1) \<Rightarrow> (Inr [], w1)
      | (Inr embeddings, w1) \<Rightarrow>
          if embeddings = [] \<or> length embeddings \<noteq> 1 then (Inr [], w1)
          else
            let query_embedding = embeddings ! 0;
                w2 = snd (execute_query env (Count_sql doc_name) True True False w1);
                sql = Search_sql (embedding_str env query_embedding) doc_name top_k
            in
            (case execute_query env sql False True False w2 of
               (Inl e, w3) \<Rightarrow> (Inr [], w3)
             | (Inr (All rows), w3) \<Rightarrow>
                 if rows = [] then (Inr [], w3)
                 else
                   (case to_results rows of
                      Inl e \<Rightarrow> (Inr [], w3)
                    | Inr result \<Rightarrow> (Inr result, w3))
             | (Inr _, w3) \<Rightarrow> (Inr [], w3)))"

section \<open>Chat adapter (utils/oci\_chat.py)\<close>

definition nl :: string where
  "nl = [CHR 0x0A]"

definition chat_prompt :: "string \<Rightarrow> string \<Rightarrow> string" where
  "chat_prompt context question =
     ''Based on the following context from our documents:'' @ nl @ nl
     @ context @ nl @ nl
     @ ''Question: '' @ question @ nl @ nl
     @ ''Instructions:'' @ nl
     @ ''1. Answer in one short paragraph based only on the context.'' @ nl
     @ ''2. If the context does not contain the answer, say so.'' @ nl
     @ ''3. IMPORTANT: Respond in the SAME LANGUAGE as the question. ''
     @ ''If the question is in Korean, answer in Korean. If in Japanese, answer in Japanese. Etc.''"

text \<open>A test \<open>if hasattr(\<dots>): return \<dots>\<close> that falls through to the next one.\<close>

fun orelse :: "'a attr \<Rightarrow> 'a attr \<Rightarrow> 'a attr" where
  "orelse (Attr x) _ = Attr x"
| "orelse Missing y = y"

text \<open>
  The attribute paths that \<open>chat_with_context\<close> probes, in its order; \<open>Missing\<close> when
  none is there (the "unexpected chat response shape" of the source).
\<close>

definition returned_attr :: "chat_reply \<Rightarrow> string option attr" where
  "returned_attr response =
     orelse
       (case rp_data response of
          Missing \<Rightarrow> Missing
        | Attr data \<Rightarrow>
            orelse
              (case cd_chat_response data of
                 Missing \<Rightarrow> Missing
               | Attr chat_resp \<Rightarrow>
                   orelse
                     (case cr_message chat_resp of
                        Missing \<Rightarrow> Missing
                      | Attr message \<Rightarrow> cm_content message)
                     (orelse (cr_content chat_resp) (cr_text chat_resp)))
              (cd_content data))
       (rp_content response)"

text \<open>The body of the \<open>try\<close> block: what it returns, or the exception it raises.\<close>

definition chat_try :: "env \<Rightarrow> string \<Rightarrow> world \<Rightarrow> (exn + string option) \<times> world" where
  "chat_try env prompt w =
     (case chat_client env of
        Some e \<Rightarrow> (Inl e, w)
      | None \<Rightarrow>
          let w1 = emit (Client_chat prompt) w in
          (case client_chat env prompt of
             Inl e \<Rightarrow> (Inl e, w1)
           | Inr response \<Rightarrow>
               (case returned_attr response of
                  Attr reply \<Rightarrow> (Inr reply, w1)
                | Missing \<Rightarrow> (Inr None, w1))))"

definition chat_with_context ::
  "env \<Rightarrow> string \<Rightarrow> string \<Rightarrow> world \<Rightarrow> (exn + string option) \<times> world" where
  "chat_with_context env context question w =
     (let w0 = emit (Chat_with_context context question) w;
          prompt = chat_prompt context question
      in
      (case chat_try env prompt w0 of
         (Inl e, w1) \<Rightarrow> (Inr None, w1)
       | (Inr reply, w1) \<Rightarrow> (Inr reply, w1)))"

section \<open>The RAG pipeline (knowledge\_bot.py, render\_knowledge\_bot\_tab)\<close>

text \<open>What the tab shows, in order.\<close>

datatype ui_message =
    St_warning string
  | St_error string
  | St_info string
  | St_answer string "query_result list"

text \<open>\<open>str.isspace\<close> on the characters below 256, and \<open>str.strip()\<close>.\<close>

definition is_space :: "char \<Rightarrow> bool" where
  "is_space c =
     (let n = (of_char c :: nat)
      in (9 \<le> n \<and> n \<le> 13) \<or> (28 \<le> n \<and> n \<le> 32) \<or> n = 133 \<or> n = 160)"

definition strip :: "string \<Rightarrow> string" where
  "strip s = rev (dropWhile is_space (rev (dropWhile is_space s)))"

definition exn_str :: "exn \<Rightarrow> string" where
  "exn_str e = (case e of Exn msg \<Rightarrow> msg)"

text \<open>\<open>if answer:\<close> on an optional string.\<close>

definition truthy :: "string option \<Rightarrow> bool" where
  "truthy answer = (case answer of None \<Rightarrow> False | Some s \<Rightarrow> s \<noteq> [])"

text \<open>
  The first \<open>try\<close> block of the branch: \<open>get_oci_client()\<close>, then the search; any
  exception is shown and leaves \<open>chunks = []\<close>.
\<close>

definition search_step ::
  "env \<Rightarrow> string \<Rightarrow> string \<Rightarrow> int \<Rightarrow> world \<Rightarrow> (query_result list \<times> ui_message list) \<times> world" where
  "search_step env selected_doc question top_k w =
     (case oci_config env of
        Some e \<Rightarrow> (([], [St_error (''Search failed: '' @ exn_str e)]), w)
      | None \<Rightarrow>
          (case search_chunks_by_doc env selected_doc question top_k w of
             (Inl e, w1) \<Rightarrow> (([], [St_error (''Search failed: '' @ exn_str e)]), w1)
           | (Inr chunks, w1) \<Rightarrow> ((chunks, []), w1)))"

text \<open>
  The branch \<open>if ask_rag:\<close> of \<open>render_knowledge_bot_tab\<close>. The source-chunk table
  formats each similarity with \<open>:.4f\<close>, which raises on \<open>None\<close>.
\<close>

definition ask_rag ::
  "env \<Rightarrow> string \<Rightarrow> string \<Rightarrow> int \<Rightarrow> world \<Rightarrow> (exn + ui_message list) \<times> world" where
  "ask_rag env selected_doc query top_k w =
     (if strip query = [] then (Inr [St_warning ''Enter a question first.''], w)
      else
        (case search_step env selected_doc (strip query) top_k w of
           ((chunks, shown), w1) \<Rightarrow>
             if chunks = [] then
               (Inr (shown @ [St_info ''No chunks found. Cannot generate an answer.'']), w1)
             else
               let context = str_join (nl @ nl) (map chunk_text chunks) in
               (case chat_with_context env context (strip query) w1 of
                  (Inl e, w2) \<Rightarrow> (Inl e, w2)
                | (Inr answer, w2) \<Rightarrow>
                    if truthy answer then
                      (if list_ex (\<lambda>c. similarity c = None) chunks
                       then (Inl (Exn ''TypeError: unsupported format string''), w2)
                       else (Inr (shown @ [St_answer (or_empty answer) chunks]), w2))
                    else (Inr (shown @ [St_error ''Failed to get answer from LLM.'']), w2))))"

section \<open>The data model's invariants and the chunks of a document\<close>

text \<open>
  Modelled from the spec: the job identifier is unique, and (the database storing the
  empty string as NULL) no stored object name is the empty string.
\<close>

definition wf_tables :: "tables \<Rightarrow> bool" where
  "wf_tables t =
     (distinct (map j_job_id (doc_ingest_jobs t)) \<and>
      list_all (\<lambda>j. j_object_name j \<noteq> Some []) (doc_ingest_jobs t))"

text \<open>
  The chunks of a document whose embedding vector is non-null: those whose owning job
  carries the document's name.
\<close>

definition embedded_chunks_of :: "tables \<Rightarrow> string \<Rightarrow> chunk list" where
  "embedded_chunks_of t document_name =
     filter (\<lambda>c. c_embed_vector c \<noteq> None \<and>
                 list_ex (\<lambda>j. j_job_id j = c_job_id c \<and> j_object_name j = Some document_name)
                   (doc_ingest_jobs t))
       (doc_chunks t)"

section \<open>The specification's words for the bind string and the reply\<close>

text \<open>
  The vector literal that the data store gateway accepts, in the words of the
  specification: a bracketed comma-separated float list. It is stated on its own, and
  compared below with the string that \<open>search_chunks_by_doc\<close> builds.
\<close>

fun comma_separated :: "string list \<Rightarrow> string" where
  "comma_separated [] = []"
| "comma_separated [x] = x"
| "comma_separated (x # y # ys) = x @ '','' @ comma_separated (y # ys)"

definition vector_literal :: "env \<Rightarrow> vector \<Rightarrow> string" where
  "vector_literal env v = ''['' @ comma_separated (map (str_float env) v) @ '']''"

text \<open>
  The places of a hosted chat response under which a reply may sit, as attribute paths
  from the response, in order of preference: \<open>data.chat_response.message.content\<close>,
  \<open>data.chat_response.content\<close>, \<open>data.chat_response.text\<close>, \<open>data.content\<close>,
  \<open>content\<close>. A path is present when every attribute along it is. The response
  cannot be parsed when no path is present.
\<close>

definition attr_bind :: "'a attr \<Rightarrow> ('a \<Rightarrow> 'b attr) \<Rightarrow> 'b attr" where
  "attr_bind a f = (case a of Missing \<Rightarrow> Missing | Attr x \<Rightarrow> f x)"

definition reply_paths :: "chat_reply \<Rightarrow> string option attr list" where
  "reply_paths response =
     [attr_bind (rp_data response) (\<lambda>d. attr_bind (cd_chat_response d)
         (\<lambda>cr. attr_bind (cr_message cr) cm_content)),
      attr_bind (rp_data response) (\<lambda>d. attr_bind (cd_chat_response d) cr_content),
      attr_bind (rp_data response) (\<lambda>d. attr_bind (cd_chat_response d) cr_text),
      attr_bind (rp_data response) cd_content,
      rp_content response]"

fun first_present :: "'a attr list \<Rightarrow> 'a attr" where
  "first_present [] = Missing"
| "first_present (Missing # rest) = first_present rest"
| "first_present (Attr x # rest) = Attr x"

section \<open>Kinds of external call\<close>

text \<open>A call that can change the durable store: a commit, or a statement that is not one
  of the two queries of the retrieval engine.\<close>

fun store_write :: "event \<Rightarrow> bool" where
  "store_write Commit = True"
| "store_write (Cursor_execute (Other_sql _)) = True"
| "store_write _ = False"

text \<open>A call into the chat adapter or from it to the hosted chat service.\<close>

fun chat_call :: "event \<Rightarrow> bool" where
  "chat_call (Chat_with_context _ _) = True"
| "chat_call (Client_chat _) = True"
| "chat_call _ = False"

section \<open>A concrete scenario\<close>

text \<open>
  The end-to-end scenario of the specification: document \<open>guide.pdf\<close> has three embedded
  chunks, at distances 0.45, 0.12 and 0.88 from the query; \<open>empty.pdf\<close> has one chunk
  without a vector. The stand-in for the distance reads the first coordinate of the
  stored vector.
\<close>

definition guide_reply :: chat_reply where
  "guide_reply =
     \<lparr>rp_data = Attr \<lparr>cd_chat_response =
                         Attr \<lparr>cr_message = Missing, cr_content = Missing,
                               cr_text = Attr (Some ''X is the first letter.'')\<rparr>,
                       cd_content = Missing\<rparr>,
      rp_content = Missing\<rparr>"

definition guide_env :: env where
  "guide_env =
     \<lparr>embed_text = (\<lambda>texts. Inr \<lparr>er_data = Attr \<lparr>ed_embeddings = Attr (map (\<lambda>t. [1]) texts)\<rparr>,
                                 er_embeddings = Missing\<rparr>),
      str_float = (\<lambda>x. ''1.0''),
      to_vector = (\<lambda>s. [1]),
      vector_distance = (\<lambda>u v. case u of [] \<Rightarrow> 0 | x # _ \<Rightarrow> x),
      pool_acquire = None,
      db_fault = (\<lambda>stmt. None),
      other_sql = (\<lambda>text t. Inr (None, t)),
      oci_config = None,
      chat_client = None,
      client_chat = (\<lambda>prompt. Inr guide_reply)\<rparr>"

definition guide_tables :: tables where
  "guide_tables =
     \<lparr>doc_ingest_jobs =
        [\<lparr>j_job_id = 1, j_object_name = Some ''guide.pdf''\<rparr>,
         \<lparr>j_job_id = 2, j_object_name = Some ''empty.pdf''\<rparr>],
      doc_chunks =
        [\<lparr>c_job_id = 1, c_chunk_id = 1, c_chunk_text = Some ''alpha'',
          c_embed_vector = Some [45 / 100]\<rparr>,
         \<lparr>c_job_id = 1, c_chunk_id = 2, c_chunk_text = Some ''beta'',
          c_embed_vector = Some [12 / 100]\<rparr>,
         \<lparr>c_job_id = 1, c_chunk_id = 3, c_chunk_text = Some ''gamma'',
          c_embed_vector = Some [88 / 100]\<rparr>,
         \<lparr>c_job_id = 2, c_chunk_id = 1, c_chunk_text = Some ''delta'',
          c_embed_vector = None\<rparr>]\<rparr>"

definition guide_world :: world where
  "guide_world = \<lparr>store = guide_tables, calls = []\<rparr>"

definition beta_result :: query_result where
  "beta_result =
     \<lparr>job_id = 1, chunk_id = 2, chunk_text = ''beta'', similarity = Some (12 / 100),
      object_name = ''guide.pdf''\<rparr>"

definition alpha_result :: query_result where
  "alpha_result =
     \<lparr>job_id = 1, chunk_id = 1, chunk_text = ''alpha'', similarity = Some (45 / 100),
      object_name = ''guide.pdf''\<rparr>"

text \<open>The world after the retrieval of the scenario: one embedding call, two queries.\<close>

definition guide_searched :: world where
  "guide_searched =
     \<lparr>store = guide_tables,
      calls = [Embed_text [''what is X''],
               Cursor_execute (Count_sql ''guide.pdf''),
               Cursor_execute (Search_sql ''[1.0]'' ''guide.pdf'' 2)]\<rparr>"

text \<open>Variants of the scenario in which a collaborator fails.\<close>

definition failing_embed_env :: env where
  "failing_embed_env = guide_env\<lparr>embed_text := (\<lambda>texts. Inl (Exn ''embed_text: timeout''))\<rparr>"

definition two_vectors_env :: env where
  "two_vectors_env =
     guide_env\<lparr>embed_text := (\<lambda>texts. Inr \<lparr>er_data = Missing, er_embeddings = Attr [[1], [2]]\<rparr>)\<rparr>"

definition failing_db_env :: env where
  "failing_db_env = guide_env\<lparr>db_fault := (\<lambda>stmt. Some (Exn ''ORA-03113''))\<rparr>"

text \<open>Variants of the scenario in which the chat side fails or answers in an unknown shape.\<close>

definition no_chat_client_env :: env where
  "no_chat_client_env = guide_env\<lparr>chat_client := Some (Exn ''invalid config'')\<rparr>"

definition failing_chat_env :: env where
  "failing_chat_env = guide_env\<lparr>client_chat := (\<lambda>prompt. Inl (Exn ''503 Service Unavailable''))\<rparr>"

definition odd_shape_env :: env where
  "odd_shape_env =
     guide_env\<lparr>client_chat := (\<lambda>prompt. Inr \<lparr>rp_data = Missing, rp_content = Missing\<rparr>)\<rparr>"

text \<open>
  A second scenario, in which the order depends on the query. The embedding service
  answers \<open>what is X\<close> with the unit vector \<open>[1, 0]\<close> and any other text with
  \<open>[0, 1]\<close>; floats are printed and parsed back faithfully on these two vectors; the
  distance is \<open>1 - u \<cdot> v\<close>, the cosine distance of unit vectors. The three chunks carry
  unit vectors.
\<close>

definition compass_env :: env where
  "compass_env =
     guide_env
       \<lparr>embed_text :=
          (\<lambda>texts. Inr \<lparr>er_data =
                          Attr \<lparr>ed_embeddings =
                                  Attr (map (\<lambda>t. if t = ''what is X'' then [1, 0] else [0, 1])
                                          texts)\<rparr>,
                        er_embeddings = Missing\<rparr>),
        str_float := (\<lambda>x. if x = 1 then ''1.0'' else ''0.0''),
        to_vector :=
          (\<lambda>s. if s = ''[1.0,0.0]'' then [1, 0] else if s = ''[0.0,1.0]'' then [0, 1] else []),
        vector_distance := (\<lambda>u v. 1 - sum_list (map2 (*) u v))\<rparr>"

definition compass_tables :: tables where
  "compass_tables =
     \<lparr>doc_ingest_jobs = [\<lparr>j_job_id = 1, j_object_name = Some ''guide.pdf''\<rparr>],
      doc_chunks =
        [\<lparr>c_job_id = 1, c_chunk_id = 1, c_chunk_text = Some ''alpha'',
          c_embed_vector = Some [6 / 10, 8 / 10]\<rparr>,
         \<lparr>c_job_id = 1, c_chunk_id = 2, c_chunk_text = Some ''beta'',
          c_embed_vector = Some [8 / 10, 6 / 10]\<rparr>,
         \<lparr>c_job_id = 1, c_chunk_id = 3, c_chunk_text = Some ''gamma'',
          c_embed_vector = Some [0, 1]\<rparr>]\<rparr>"

definition compass_world :: world where
  "compass_world = \<lparr>store = compass_tables, calls = []\<rparr>"

definition compass_result :: "nat \<Rightarrow> string \<Rightarrow> real \<Rightarrow> query_result" where
  "compass_result n text d =
     \<lparr>job_id = 1, chunk_id = n, chunk_text = text, similarity = Some d,
      object_name = ''guide.pdf''\<rparr>"

section \<open>Properties\<close>

subsection \<open>The world after each call\<close>

lemma get_embeddings_world:
  "snd (get_embeddings env texts w) = (if texts = [] then w else emit (Embed_text texts) w)"
  by (simp add: get_embeddings_def Let_def split: sum.splits attr.splits)

lemma execute_query_no_commit_world:
  "snd (execute_query env stmt fetch_one fetch_all False w) =
     (if pool_acquire env = None then emit (Cursor_execute stmt) w else w)"
  by (simp add: execute_query_def Let_def split: option.splits sum.splits prod.splits list.splits)

lemma store_emit [simp]: "store (emit ev w) = store w"
  by (simp add: emit_def)

lemma calls_emit [simp]: "calls (emit ev w) = calls w @ [ev]"
  by (simp add: emit_def)

lemma execute_query_search_result:
  "fst (execute_query env (Search_sql qv d k) False True False w) =
     (case pool_acquire env of
        Some e \<Rightarrow> Inl e
      | None \<Rightarrow>
          (case db_fault env (Search_sql qv d k) of
             Some e \<Rightarrow> Inl e
           | None \<Rightarrow> Inr (All (search_rows env (store w) qv d k))))"
  by (simp add: execute_query_def cursor_execute_def Let_def split: option.splits)

lemma to_results_select:
  "\<exists>qs. to_results (map (select_row env qv) xs) = Inr qs"
  by (induction xs) (auto simp: select_row_def)

lemma to_results_list_all2:
  "to_results rows = Inr qs \<Longrightarrow> list_all2 (\<lambda>r q. to_result r = Inr q) rows qs"
  by (induction rows arbitrary: qs) (auto split: sum.splits)

lemma count_owned:
  "distinct (map f xs) \<Longrightarrow>
   length (filter (\<lambda>x. f x = a \<and> Q x) xs) = (if \<exists>x\<in>set xs. f x = a \<and> Q x then 1 else 0)"
  by (induction xs) (auto simp: image_iff)

subsection \<open>What retrieval returns\<close>

lemma search_chunks_by_doc_fst:
  "fst (search_chunks_by_doc env doc q k w) =
     Inr (case fst (get_embeddings env [q] w) of
            Inl e \<Rightarrow> []
          | Inr vs \<Rightarrow>
              if length vs \<noteq> 1 then []
              else if pool_acquire env \<noteq> None then []
              else if db_fault env (Search_sql (embedding_str env (vs ! 0)) doc k) \<noteq> None then []
              else (case to_results (search_rows env (store w) (embedding_str env (vs ! 0)) doc k) of
                      Inl e \<Rightarrow> []
                    | Inr result \<Rightarrow> result))"
proof (cases "get_embeddings env [q] w")
  case (Pair r w1)
  have w1: "w1 = emit (Embed_text [q]) w"
    using get_embeddings_world [of env "[q]" w] Pair by simp
  show ?thesis
  proof (cases r)
    case (Inl e)
    with Pair show ?thesis by (simp add: search_chunks_by_doc_def)
  next
    case (Inr vs)
    show ?thesis
    proof (cases "length vs = 1")
      case False
      with Pair Inr show ?thesis by (auto simp add: search_chunks_by_doc_def)
    next
      case True
      let ?sql = "Search_sql (embedding_str env (vs ! 0)) doc k"
      let ?w2 = "snd (execute_query env (Count_sql doc) True True False w1)"
      have st: "store ?w2 = store w"
        by (simp add: execute_query_no_commit_world w1)
      obtain f w3 where ex: "execute_query env ?sql False True False ?w2 = (f, w3)"
        by (cases "execute_query env ?sql False True False ?w2")
      have f: "f = (case pool_acquire env of
        Some e \<Rightarrow> Inl e
      | None \<Rightarrow>
          (case db_fault env ?sql of
             Some e \<Rightarrow> Inl e
           | None \<Rightarrow> Inr (All (search_rows env (store w) (embedding_str env (vs ! 0)) doc k))))"
      proof -
        have "f = fst (execute_query env ?sql False True False ?w2)" using ex by simp
        then show ?thesis by (simp only: execute_query_search_result st)
      qed
      from True have ne: "vs \<noteq> []" by auto
      show ?thesis
        using Pair Inr True ne ex f
        by (auto simp add: search_chunks_by_doc_def Let_def split: option.splits sum.splits)
    qed
  qed
qed

lemma sql_eq_bind: "sql_eq a (bind_str d) = (a = Some d \<and> d \<noteq> [])"
  by (auto simp: sql_eq_def bind_str_def split: option.splits)

lemma set_joined:
  "set (joined t) = {(c, j). c \<in> set (doc_chunks t) \<and> j \<in> set (doc_ingest_jobs t) \<and> j_job_id j = c_job_id c}"
  by (auto simp: joined_def)

lemma hit_embedded:
  assumes "cj \<in> set (joined t)" "hit d cj"
  shows "fst cj \<in> set (embedded_chunks_of t d)"
  using assms by (auto simp: set_joined hit_def sql_eq_bind embedded_chunks_of_def list_ex_iff)

lemma embedded_hit:
  assumes "c \<in> set (embedded_chunks_of t d)" "wf_tables t"
  shows "\<exists>j. (c, j) \<in> set (joined t) \<and> hit d (c, j)"
  using assms
  by (fastforce simp: set_joined hit_def sql_eq_bind embedded_chunks_of_def list_ex_iff wf_tables_def list_all_iff)

lemma length_hits_aux:
  assumes "distinct (map j_job_id js)"
  shows "length (filter (hit d)
           (concat (map (\<lambda>c. map (Pair c) (filter (\<lambda>j. j_job_id j = c_job_id c) js)) cs))) =
         length (filter (\<lambda>c. c_embed_vector c \<noteq> None \<and>
                   (\<exists>j\<in>set js. j_job_id j = c_job_id c \<and> sql_eq (j_object_name j) (bind_str d))) cs)"
proof (induction cs)
  case Nil
  show ?case by simp
next
  case (Cons c cs)
  have one: "length (filter (hit d) (map (Pair c) (filter (\<lambda>j. j_job_id j = c_job_id c) js))) =
     (if c_embed_vector c \<noteq> None \<and>
         (\<exists>j\<in>set js. j_job_id j = c_job_id c \<and> sql_eq (j_object_name j) (bind_str d))
      then 1 else 0)"
  proof (cases "c_embed_vector c = None")
    case True
    then show ?thesis by (simp add: filter_map o_def hit_def)
  next
    case False
    then have "length (filter (hit d) (map (Pair c) (filter (\<lambda>j. j_job_id j = c_job_id c) js))) =
      length (filter (\<lambda>j. j_job_id j = c_job_id c \<and> sql_eq (j_object_name j) (bind_str d)) js)"
      by (simp add: filter_map o_def hit_def conj_commute)
    also have "\<dots> = (if \<exists>j\<in>set js. j_job_id j = c_job_id c \<and> sql_eq (j_object_name j) (bind_str d)
                     then 1 else 0)"
      by (rule count_owned [OF assms])
    finally show ?thesis using False by simp
  qed
  show ?case using Cons.IH one by simp
qed

lemma length_hits:
  assumes "wf_tables t"
  shows "length (filter (hit d) (joined t)) = length (embedded_chunks_of t d)"
proof -
  have d: "distinct (map j_job_id (doc_ingest_jobs t))"
    using assms by (simp add: wf_tables_def)
  have ne: "\<forall>j\<in>set (doc_ingest_jobs t). j_object_name j \<noteq> Some []"
    using assms by (simp add: wf_tables_def list_all_iff)
  have eq: "(\<lambda>c. c_embed_vector c \<noteq> None \<and>
            (\<exists>j\<in>set (doc_ingest_jobs t). j_job_id j = c_job_id c \<and> sql_eq (j_object_name j) (bind_str d)))
      = (\<lambda>c. c_embed_vector c \<noteq> None \<and>
                 list_ex (\<lambda>j. j_job_id j = c_job_id c \<and> j_object_name j = Some d)
                   (doc_ingest_jobs t))"
    using ne by (auto simp: sql_eq_bind list_ex_iff fun_eq_iff)
  show ?thesis
    unfolding joined_def embedded_chunks_of_def
    by (simp only: length_hits_aux [OF d] eq)
qed

lemma length_to_results:
  "to_results rows = Inr qs \<Longrightarrow> length qs = length rows"
  using to_results_list_all2 list_all2_lengthD by fastforce

lemma length_search_rows:
  "length (search_rows env t qv d k) = min (nat k) (length (filter (hit d) (joined t)))"
  by (simp add: search_rows_def)

lemma to_results_total:
  "\<forall>r\<in>set rows. \<exists>q. to_result r = Inr q \<Longrightarrow> \<exists>qs. to_results rows = Inr qs"
  by (induction rows) auto

lemma set_search_rows:
  "set (search_rows env t qv d k) \<subseteq> select_row env qv ` {cj \<in> set (joined t). hit d cj}"
  unfolding search_rows_def using set_take_subset by fastforce

lemma to_results_search_rows:
  "\<exists>qs. to_results (search_rows env t qv d k) = Inr qs"
proof (rule to_results_total)
  show "\<forall>r\<in>set (search_rows env t qv d k). \<exists>q. to_result r = Inr q"
    using set_search_rows [of env t qv d k] by (auto simp: select_row_def)
qed

lemma subset_image_map:
  "set xs \<subseteq> f ` S \<Longrightarrow> \<exists>ys. xs = map f ys \<and> set ys \<subseteq> S"
proof (induction xs)
  case Nil
  show ?case by simp
next
  case (Cons x xs)
  then obtain ys where ys: "xs = map f ys" "set ys \<subseteq> S" by auto
  from Cons.prems obtain y where "y \<in> S" "x = f y" by auto
  with ys have "x # xs = map f (y # ys) \<and> set (y # ys) \<subseteq> S" by simp
  then show ?case by (rule exI)
qed

lemma list_all2_in_set:
  "list_all2 P xs ys \<Longrightarrow> y \<in> set ys \<Longrightarrow> \<exists>x\<in>set xs. P x y"
  by (induction rule: list_all2_induct) auto

lemma search_chunks_by_doc_hits:
  assumes res: "fst (search_chunks_by_doc env doc q k w) = Inr result"
      and ne: "result \<noteq> []"
  shows "\<exists>v hs. fst (get_embeddings env [q] w) = Inr [v]
           \<and> pool_acquire env = None
           \<and> db_fault env (Search_sql (embedding_str env v) doc k) = None
           \<and> set hs \<subseteq> {cj \<in> set (joined (store w)). hit doc cj}
           \<and> search_rows env (store w) (embedding_str env v) doc k
               = map (select_row env (embedding_str env v)) hs
           \<and> list_all2 (\<lambda>cj r. to_result (select_row env (embedding_str env v) cj) = Inr r) hs result"
proof -
  obtain vs where vs: "fst (get_embeddings env [q] w) = Inr vs"
    using res ne by (cases "fst (get_embeddings env [q] w)") (auto simp: search_chunks_by_doc_fst)
  have len: "length vs = 1"
    using res ne vs by (auto simp: search_chunks_by_doc_fst split: if_splits)
  then obtain v where v: "vs = [v]"
    by (cases vs) auto
  let ?qv = "embedding_str env v"
  have pa: "pool_acquire env = None"
    using res ne vs v by (auto simp: search_chunks_by_doc_fst split: if_splits)
  have df: "db_fault env (Search_sql ?qv doc k) = None"
    using res ne vs v by (auto simp: search_chunks_by_doc_fst split: if_splits)
  have tr: "to_results (search_rows env (store w) ?qv doc k) = Inr result"
    using res ne vs v pa df by (auto simp: search_chunks_by_doc_fst split: sum.splits)
  obtain hs where hs: "search_rows env (store w) ?qv doc k = map (select_row env ?qv) hs"
      "set hs \<subseteq> {cj \<in> set (joined (store w)). hit doc cj}"
    using subset_image_map [OF set_search_rows] by blast
  have "list_all2 (\<lambda>r q. to_result r = Inr q) (map (select_row env ?qv) hs) result"
    using to_results_list_all2 tr hs(1) by simp
  then have "list_all2 (\<lambda>cj r. to_result (select_row env ?qv cj) = Inr r) hs result"
    by (simp add: list_all2_map1)
  with vs v pa df hs show ?thesis by blast
qed

lemma to_result_hit:
  assumes "hit d cj" "to_result (select_row env qv cj) = Inr r"
  shows "job_id r = c_job_id (fst cj) \<and> chunk_id r = c_chunk_id (fst cj)
       \<and> chunk_text r = take 8000 (or_empty (c_chunk_text (fst cj)))
       \<and> similarity r = similarity_expr env qv (fst cj)
       \<and> object_name r = d"
proof -
  from assms(1) have nm: "j_object_name (snd cj) = Some d"
    by (simp add: hit_def sql_eq_bind)
  have sub: "or_empty (dbms_lob_substr t 8000 1) = take 8000 (or_empty t)" for t
    by (simp add: or_empty_def dbms_lob_substr_def bind_str_def split: option.splits)
  from assms(2) have "r = \<lparr>job_id = c_job_id (fst cj), chunk_id = c_chunk_id (fst cj),
      chunk_text = or_empty (dbms_lob_substr (c_chunk_text (fst cj)) 8000 1),
      similarity = similarity_expr env qv (fst cj),
      object_name = or_empty (j_object_name (snd cj))\<rparr>"
    by (simp add: select_row_def)
  moreover have "or_empty (j_object_name (snd cj)) = d"
    using nm by (simp add: or_empty_def)
  ultimately show ?thesis
    by (simp del: One_nat_def add: sub)
qed

subsection \<open>Order of the fetched rows\<close>

lemma sorted_Pair_False:
  "sorted (map (Pair False) ds) \<Longrightarrow> sorted (ds :: real list)"
  by (induction ds) auto

lemma similarity_key_select_row:
  "similarity_key (select_row env qv cj) =
     (case similarity_expr env qv (fst cj) of None \<Rightarrow> (True, 0) | Some d \<Rightarrow> (False, d))"
  by (simp add: select_row_def split: option.splits)

lemma map_Some_ex:
  "\<forall>x\<in>set xs. \<exists>y. f x = Some y \<Longrightarrow> \<exists>ys. map f xs = map Some ys"
proof (induction xs)
  case Nil
  show ?case by simp
next
  case (Cons x xs)
  then obtain ys where "map f xs = map Some ys" by auto
  moreover from Cons.prems obtain y where "f x = Some y" by auto
  ultimately have "map f (x # xs) = map Some (y # ys)" by simp
  then show ?case by (rule exI)
qed

lemma sorted_search_rows:
  "sorted (map similarity_key (search_rows env t qv d k))"
  unfolding search_rows_def
  by (simp add: take_map [symmetric])

lemma hd_search_rows_least:
  assumes "search_rows env t qv d k \<noteq> []" "cj \<in> set (joined t)" "hit d cj"
  shows "similarity_key (hd (search_rows env t qv d k)) \<le> similarity_key (select_row env qv cj)"
proof -
  let ?all = "sort_key similarity_key (map (select_row env qv) (filter (hit d) (joined t)))"
  from assms(1) have k: "0 < nat k" and ne: "?all \<noteq> []"
    by (auto simp: search_rows_def)
  then have hd: "hd (search_rows env t qv d k) = hd ?all"
    by (simp add: search_rows_def)
  have mem: "select_row env qv cj \<in> set ?all"
    using assms(2,3) by simp
  have "sorted (map similarity_key ?all)" by simp
  then have least: "\<forall>x\<in>set ?all. similarity_key (hd ?all) \<le> similarity_key x"
    using ne by (cases ?all) auto
  from bspec [OF least mem] show ?thesis by (simp only: hd)
qed

subsection \<open>Calls made by retrieval and by the chat adapter\<close>

lemma foldl_join:
  "foldl (\<lambda>acc s. acc @ sep @ s) a xs = a @ concat (map (\<lambda>s. sep @ s) xs)"
  by (induction xs arbitrary: a) auto

lemma str_join_Cons:
  "str_join sep (x # xs) = x @ concat (map (\<lambda>s. sep @ s) xs)"
  by (simp add: str_join_def foldl_join)

lemma search_chunks_by_doc_snd:
  "snd (search_chunks_by_doc env doc_name query top_k w) =
     (case fst (get_embeddings env [query] w) of
        Inl e \<Rightarrow> emit (Embed_text [query]) w
      | Inr vs \<Rightarrow>
          if length vs \<noteq> 1 then emit (Embed_text [query]) w
          else snd (execute_query env (Search_sql (embedding_str env (vs ! 0)) doc_name top_k)
                      False True False
                      (snd (execute_query env (Count_sql doc_name) True True False
                              (emit (Embed_text [query]) w)))))"
proof -
  obtain r w1 where g: "get_embeddings env [query] w = (r, w1)"
    by (cases "get_embeddings env [query] w")
  have w1: "w1 = emit (Embed_text [query]) w"
    using get_embeddings_world [of env "[query]" w] g by simp
  show ?thesis
    using g w1
    by (cases r)
       (auto simp: search_chunks_by_doc_def Let_def
             split: prod.splits sum.splits fetched.splits)
qed

lemma search_chunks_by_doc_calls:
  "\<exists>evs. calls (snd (search_chunks_by_doc env doc_name query top_k w)) = calls w @ evs
       \<and> (\<forall>ev\<in>set evs. (\<exists>texts. ev = Embed_text texts)
              \<or> (\<exists>d. ev = Cursor_execute (Count_sql d))
              \<or> (\<exists>qv d k. ev = Cursor_execute (Search_sql qv d k)))"
  by (cases "fst (get_embeddings env [query] w)")
     (simp_all add: search_chunks_by_doc_snd execute_query_no_commit_world)

lemma search_chunks_by_doc_store:
  "store (snd (search_chunks_by_doc env doc_name query top_k w)) = store w"
  by (cases "fst (get_embeddings env [query] w)")
     (simp_all add: search_chunks_by_doc_snd execute_query_no_commit_world)

lemma chat_with_context_calls:
  "\<exists>rest. calls (snd (chat_with_context env context question w)) =
     calls w @ Chat_with_context context question # rest"
  by (simp add: chat_with_context_def chat_try_def Let_def split: option.splits sum.splits attr.splits)

subsection \<open>The fetched rows, in the terms of the select list\<close>

lemma search_chunks_by_doc_sorted_rows:
  assumes emb: "fst (get_embeddings env [query] w) = Inr [v]"
      and res: "fst (search_chunks_by_doc env doc_name query top_k w) = Inr result"
      and wf: "wf_tables (store w)"
  shows "\<exists>cs ds.
           list_all2 (\<lambda>r c. c \<in> set (embedded_chunks_of (store w) doc_name)
                        \<and> job_id r = c_job_id c \<and> chunk_id r = c_chunk_id c
                        \<and> similarity r = similarity_expr env (embedding_str env v) c) result cs
         \<and> map similarity result = map Some ds
         \<and> sorted ds
         \<and> (\<forall>c\<in>set (embedded_chunks_of (store w) doc_name). \<forall>d.
                similarity_expr env (embedding_str env v) c = Some d \<longrightarrow> ds \<noteq> [] \<longrightarrow> hd ds \<le> d)"
proof (cases "result = []")
  case True
  then have "list_all2 (\<lambda>r c. c \<in> set (embedded_chunks_of (store w) doc_name)
                        \<and> job_id r = c_job_id c \<and> chunk_id r = c_chunk_id c
                        \<and> similarity r = similarity_expr env (embedding_str env v) c) result []
         \<and> map similarity result = map Some []
         \<and> sorted ([] :: real list)
         \<and> (\<forall>c\<in>set (embedded_chunks_of (store w) doc_name). \<forall>d.
                similarity_expr env (embedding_str env v) c = Some d \<longrightarrow> ([] :: real list) \<noteq> [] \<longrightarrow> hd [] \<le> d)"
    by simp
  then show ?thesis by blast
next
  case False
  let ?qv = "embedding_str env v"
  let ?t = "store w"
  let ?rows = "search_rows env ?t ?qv doc_name top_k"
  from search_chunks_by_doc_hits [OF res False] emb obtain hs where
    hs: "set hs \<subseteq> {cj \<in> set (joined ?t). hit doc_name cj}"
    and rows: "?rows = map (select_row env ?qv) hs"
    and all2: "list_all2 (\<lambda>cj r. to_result (select_row env ?qv cj) = Inr r) hs result"
    by auto
  have some: "\<forall>cj\<in>set hs. \<exists>d. similarity_expr env ?qv (fst cj) = Some d"
    using hs by (auto simp: hit_def similarity_expr_def)
  then obtain ds where ds: "map (\<lambda>cj. similarity_expr env ?qv (fst cj)) hs = map Some ds"
    using map_Some_ex [of hs "\<lambda>cj. similarity_expr env ?qv (fst cj)"] by blast
  have len: "length ds = length hs"
    using arg_cong [OF ds, of length] by simp
  have nth: "similarity_expr env ?qv (fst (hs ! i)) = Some (ds ! i)" if "i < length hs" for i
    using arg_cong [OF ds, of "\<lambda>xs. xs ! i"] that len by simp
  \<comment> \<open>each result carries the identifiers and the distance of its chunk\<close>
  have corr: "list_all2 (\<lambda>r c. c \<in> set (embedded_chunks_of ?t doc_name)
                        \<and> job_id r = c_job_id c \<and> chunk_id r = c_chunk_id c
                        \<and> similarity r = similarity_expr env ?qv c) result (map fst hs)"
  proof -
    have "list_all2 (\<lambda>cj r. fst cj \<in> set (embedded_chunks_of ?t doc_name)
                        \<and> job_id r = c_job_id (fst cj) \<and> chunk_id r = c_chunk_id (fst cj)
                        \<and> similarity r = similarity_expr env ?qv (fst cj)) hs result"
    proof (rule list.rel_mono_strong [OF all2])
      fix cj r
      assume cj: "cj \<in> set hs" and tr: "to_result (select_row env ?qv cj) = Inr r"
      from cj hs have j: "cj \<in> set (joined ?t)" and h: "hit doc_name cj" by auto
      from hit_embedded [OF j h] to_result_hit [OF h tr]
      show "fst cj \<in> set (embedded_chunks_of ?t doc_name)
                        \<and> job_id r = c_job_id (fst cj) \<and> chunk_id r = c_chunk_id (fst cj)
                        \<and> similarity r = similarity_expr env ?qv (fst cj)"
        by simp
    qed
    then show ?thesis
      by (simp add: list_all2_map2 list_all2_conv_all_nth)
  qed
  have sims: "map similarity result = map Some ds"
  proof -
    have "map similarity result = map (\<lambda>cj. similarity_expr env ?qv (fst cj)) hs"
      using corr by (auto simp: list_all2_conv_all_nth intro: nth_equalityI)
    with ds show ?thesis by simp
  qed
  have keys: "map similarity_key ?rows = map (Pair False) ds"
  proof (rule nth_equalityI)
    show "length (map similarity_key ?rows) = length (map (Pair False) ds)"
      by (simp add: rows len)
  next
    fix i assume "i < length (map similarity_key ?rows)"
    then have i: "i < length hs" by (simp add: rows)
    then show "map similarity_key ?rows ! i = map (Pair False) ds ! i"
      by (simp add: rows similarity_key_select_row nth len)
  qed
  have sorted: "sorted ds"
    using sorted_search_rows [of env ?t ?qv doc_name top_k] keys sorted_Pair_False by simp
  have least: "hd ds \<le> d"
    if c: "c \<in> set (embedded_chunks_of ?t doc_name)" and d: "similarity_expr env ?qv c = Some d" for c d
  proof -
    from embedded_hit [OF c wf] obtain j where j: "(c, j) \<in> set (joined ?t)" "hit doc_name (c, j)"
      by blast
    have ne: "?rows \<noteq> []"
      using all2 False rows by auto
    then have dne: "ds \<noteq> []" using rows len by auto
    have "similarity_key (hd ?rows) = hd (map similarity_key ?rows)"
      using ne by (simp add: hd_map)
    also have "\<dots> = (False, hd ds)"
      using dne by (simp add: keys hd_map)
    finally have "(False, hd ds) \<le> similarity_key (select_row env ?qv (c, j))"
      using hd_search_rows_least [OF ne j] by simp
    then show ?thesis
      by (simp add: similarity_key_select_row d)
  qed
  from corr sims sorted least show ?thesis by blast
qed

subsection \<open>The code against the specification's words\<close>

lemma concat_comma_separated:
  "x @ concat (map (\<lambda>s. '','' @ s) xs) = comma_separated (x # xs)"
proof (induction xs arbitrary: x)
  case Nil
  show ?case by simp
next
  case (Cons y ys)
  have "x @ concat (map (\<lambda>s. '','' @ s) (y # ys)) =
          x @ '','' @ (y @ concat (map (\<lambda>s. '','' @ s) ys))"
    by simp
  also have "\<dots> = x @ '','' @ comma_separated (y # ys)"
    by (simp only: Cons.IH)
  finally show ?case by simp
qed

lemma embedding_str_literal: "embedding_str env v = vector_literal env v"
proof (cases v)
  case Nil
  then show ?thesis by (simp add: embedding_str_def vector_literal_def str_join_def)
next
  case (Cons x xs)
  then show ?thesis
    using concat_comma_separated [of "str_float env x" "map (str_float env) xs"]
    by (simp add: embedding_str_def vector_literal_def str_join_Cons o_def)
qed

lemma first_present_Cons: "first_present (a # rest) = orelse a (first_present rest)"
  by (cases a) simp_all

lemma orelse_Missing_right: "orelse a Missing = a"
  by (cases a) simp_all

lemma orelse_assoc: "orelse (orelse a b) c = orelse a (orelse b c)"
  by (cases a) simp_all

lemma returned_attr_paths:
  "returned_attr response = first_present (reply_paths response)"
  by (simp add: returned_attr_def reply_paths_def attr_bind_def first_present_Cons
        orelse_assoc orelse_Missing_right split: attr.splits)

subsection \<open>The scenario, evaluated\<close>

lemmas guide_defs = guide_env_def guide_tables_def guide_world_def guide_reply_def

lemma guide_embed:
  "fst (get_embeddings guide_env [''what is X''] guide_world) = Inr [[1]]"
  by (simp add: get_embeddings_def guide_defs)

lemma guide_embedding_str: "embedding_str guide_env [1] = ''[1.0]''"
  by (simp add: embedding_str_def str_join_def guide_env_def)

lemma guide_rows:
  "search_rows guide_env guide_tables ''[1.0]'' ''guide.pdf'' 2 =
     [Chunk_row 1 2 (Some ''beta'') (Some (12 / 100)) (Some ''guide.pdf''),
      Chunk_row 1 1 (Some ''alpha'') (Some (45 / 100)) (Some ''guide.pdf'')]"
  by (simp add: search_rows_def joined_def hit_def sql_eq_def bind_str_def select_row_def
        similarity_expr_def dbms_lob_substr_def guide_defs)

lemma guide_execute:
  "fst (execute_query guide_env (Search_sql ''[1.0]'' ''guide.pdf'' 2) False True False guide_world) =
     Inr (All [Chunk_row 1 2 (Some ''beta'') (Some (12 / 100)) (Some ''guide.pdf''),
               Chunk_row 1 1 (Some ''alpha'') (Some (45 / 100)) (Some ''guide.pdf'')])"
proof -
  have "pool_acquire guide_env = None" "db_fault guide_env (Search_sql ''[1.0]'' ''guide.pdf'' 2) = None"
    "store guide_world = guide_tables"
    by (simp_all add: guide_env_def guide_world_def)
  then show ?thesis
    by (simp add: execute_query_search_result guide_rows)
qed

lemma guide_search:
  "fst (search_chunks_by_doc guide_env ''guide.pdf'' ''what is X'' 2 guide_world) =
     Inr [beta_result, alpha_result]"
proof -
  have "pool_acquire guide_env = None" "db_fault guide_env (Search_sql ''[1.0]'' ''guide.pdf'' 2) = None"
    "store guide_world = guide_tables"
    by (simp_all add: guide_env_def guide_world_def)
  then show ?thesis
    by (simp add: search_chunks_by_doc_fst guide_embed guide_embedding_str guide_rows
          or_empty_def beta_result_def alpha_result_def)
qed

lemma guide_search_world:
  "snd (search_chunks_by_doc guide_env ''guide.pdf'' ''what is X'' 2 guide_world) = guide_searched"
proof -
  have "pool_acquire guide_env = None" by (simp add: guide_env_def)
  then show ?thesis
    by (simp add: search_chunks_by_doc_snd guide_embed guide_embedding_str
          execute_query_no_commit_world)
       (simp add: emit_def guide_world_def guide_searched_def)
qed

lemma guide_wf: "wf_tables (store guide_world)"
  by (simp add: wf_tables_def guide_world_def guide_tables_def)

lemma guide_embedded:
  "embedded_chunks_of (store guide_world) ''guide.pdf'' = take 3 (doc_chunks guide_tables)"
  by (simp add: embedded_chunks_of_def guide_world_def guide_tables_def)

lemma guide_strip: "strip ''what is X'' = ''what is X''"
  by (simp add: strip_def is_space_def)

lemma guide_search_pair:
  "search_chunks_by_doc guide_env ''guide.pdf'' ''what is X'' 2 guide_world =
     (Inr [beta_result, alpha_result], guide_searched)"
  using guide_search guide_search_world by (simp add: prod_eq_iff)

lemma guide_empty_search:
  "fst (search_chunks_by_doc guide_env ''empty.pdf'' ''what is X'' 2 guide_world) = Inr []"
proof -
  have "search_rows guide_env guide_tables ''[1.0]'' ''empty.pdf'' 2 = []"
    by (simp add: search_rows_def joined_def hit_def sql_eq_def bind_str_def guide_defs)
  moreover have "pool_acquire guide_env = None"
    "db_fault guide_env (Search_sql ''[1.0]'' ''empty.pdf'' 2) = None"
    "store guide_world = guide_tables"
    by (simp_all add: guide_env_def guide_world_def)
  ultimately show ?thesis
    by (simp add: search_chunks_by_doc_fst guide_embed guide_embedding_str)
qed

lemmas compass_defs = compass_env_def guide_env_def compass_tables_def compass_world_def

lemma compass_embed_X:
  "fst (get_embeddings compass_env [''what is X''] compass_world) = Inr [[1, 0]]"
  by (simp add: get_embeddings_def compass_env_def guide_env_def)

lemma compass_embed_Y:
  "fst (get_embeddings compass_env [''what is Y''] compass_world) = Inr [[0, 1]]"
  by (simp add: get_embeddings_def compass_env_def guide_env_def)

lemma compass_literal_X: "vector_literal compass_env [1, 0] = ''[1.0,0.0]''"
  by (simp add: vector_literal_def compass_env_def guide_env_def)

lemma compass_literal_Y: "vector_literal compass_env [0, 1] = ''[0.0,1.0]''"
  by (simp add: vector_literal_def compass_env_def guide_env_def)

lemma compass_rows_X:
  "search_rows compass_env compass_tables ''[1.0,0.0]'' ''guide.pdf'' 2 =
     [Chunk_row 1 2 (Some ''beta'') (Some (2 / 10)) (Some ''guide.pdf''),
      Chunk_row 1 1 (Some ''alpha'') (Some (4 / 10)) (Some ''guide.pdf'')]"
  by (simp add: search_rows_def joined_def hit_def sql_eq_def bind_str_def select_row_def
        similarity_expr_def dbms_lob_substr_def compass_defs)

lemma compass_rows_Y:
  "search_rows compass_env compass_tables ''[0.0,1.0]'' ''guide.pdf'' 2 =
     [Chunk_row 1 3 (Some ''gamma'') (Some 0) (Some ''guide.pdf''),
      Chunk_row 1 1 (Some ''alpha'') (Some (2 / 10)) (Some ''guide.pdf'')]"
  by (simp add: search_rows_def joined_def hit_def sql_eq_def bind_str_def select_row_def
        similarity_expr_def dbms_lob_substr_def compass_defs)

lemma compass_search_X:
  "fst (search_chunks_by_doc compass_env ''guide.pdf'' ''what is X'' 2 compass_world) =
     Inr [compass_result 2 ''beta'' (2 / 10), compass_result 1 ''alpha'' (4 / 10)]"
proof -
  have "pool_acquire compass_env = None"
    "db_fault compass_env (Search_sql ''[1.0,0.0]'' ''guide.pdf'' 2) = None"
    "store compass_world = compass_tables"
    by (simp_all add: compass_defs)
  then show ?thesis
    by (simp add: search_chunks_by_doc_fst compass_embed_X embedding_str_literal
          compass_literal_X compass_rows_X or_empty_def compass_result_def)
qed

lemma compass_search_Y:
  "fst (search_chunks_by_doc compass_env ''guide.pdf'' ''what is Y'' 2 compass_world) =
     Inr [compass_result 3 ''gamma'' 0, compass_result 1 ''alpha'' (2 / 10)]"
proof -
  have "pool_acquire compass_env = None"
    "db_fault compass_env (Search_sql ''[0.0,1.0]'' ''guide.pdf'' 2) = None"
    "store compass_world = compass_tables"
    by (simp_all add: compass_defs)
  then show ?thesis
    by (simp add: search_chunks_by_doc_fst compass_embed_Y embedding_str_literal
          compass_literal_Y compass_rows_Y or_empty_def compass_result_def)
qed

lemma compass_wf: "wf_tables (store compass_world)"
  by (simp add: wf_tables_def compass_world_def compass_tables_def)

subsection \<open>The claims\<close>

text \<open>
  C1. If \<open>get_embeddings\<close> raises on the single-text input, or returns a number of
  vectors other than one, or the similarity query raises in \<open>execute_query\<close>, then
  \<open>search_chunks_by_doc\<close> returns the empty list: its result is \<open>Inr []\<close>, never an
  exception. The failure of the query does not depend on the world it is run in, so
  any world \<open>w'\<close> may show it.
\<close>

theorem search_chunks_by_doc_degrades_to_empty:
  assumes "(\<exists>e. fst (get_embeddings env [query] w) = Inl e)
         \<or> (\<exists>vs. fst (get_embeddings env [query] w) = Inr vs \<and> length vs \<noteq> 1)
         \<or> (\<exists>v e. fst (get_embeddings env [query] w) = Inr [v]
               \<and> fst (execute_query env (Search_sql (embedding_str env v) doc_name top_k)
                        False True False w') = Inl e)"
  shows "fst (search_chunks_by_doc env doc_name query top_k w) = Inr []"
  using assms
  by (auto simp: search_chunks_by_doc_fst execute_query_search_result
           split: option.splits sum.splits)

theorem search_chunks_by_doc_degrades_to_empty_witness:
  "fst (get_embeddings failing_embed_env [''what is X''] guide_world) = Inl (Exn ''embed_text: timeout'')
   \<and> fst (search_chunks_by_doc failing_embed_env ''guide.pdf'' ''what is X'' 2 guide_world) = Inr []
   \<and> fst (get_embeddings two_vectors_env [''what is X''] guide_world) = Inr [[1], [2]]
   \<and> fst (search_chunks_by_doc two_vectors_env ''guide.pdf'' ''what is X'' 2 guide_world) = Inr []
   \<and> fst (get_embeddings failing_db_env [''what is X''] guide_world) = Inr [[1]]
   \<and> fst (execute_query failing_db_env (Search_sql (embedding_str failing_db_env [1]) ''guide.pdf'' 2)
             False True False guide_world) = Inl (Exn ''ORA-03113'')
   \<and> fst (search_chunks_by_doc failing_db_env ''guide.pdf'' ''what is X'' 2 guide_world) = Inr []"
proof -
  have a: "fst (get_embeddings failing_embed_env [''what is X''] guide_world) = Inl (Exn ''embed_text: timeout'')"
    by (simp add: get_embeddings_def failing_embed_env_def guide_env_def)
  have b: "fst (get_embeddings two_vectors_env [''what is X''] guide_world) = Inr [[1], [2]]"
    by (simp add: get_embeddings_def two_vectors_env_def guide_env_def)
  have c: "fst (get_embeddings failing_db_env [''what is X''] guide_world) = Inr [[1]]"
    by (simp add: get_embeddings_def failing_db_env_def guide_env_def)
  have d: "fst (execute_query failing_db_env (Search_sql (embedding_str failing_db_env [1]) ''guide.pdf'' 2)
             False True False guide_world) = Inl (Exn ''ORA-03113'')"
    by (simp add: execute_query_def cursor_execute_def failing_db_env_def guide_env_def)
  have "fst (search_chunks_by_doc failing_embed_env ''guide.pdf'' ''what is X'' 2 guide_world) = Inr []"
    using a by (intro search_chunks_by_doc_degrades_to_empty [where w' = guide_world]) simp
  moreover have "fst (search_chunks_by_doc two_vectors_env ''guide.pdf'' ''what is X'' 2 guide_world) = Inr []"
    using b by (intro search_chunks_by_doc_degrades_to_empty [where w' = guide_world]) simp
  moreover have "fst (search_chunks_by_doc failing_db_env ''guide.pdf'' ''what is X'' 2 guide_world) = Inr []"
    using c d by (intro search_chunks_by_doc_degrades_to_empty [where w' = guide_world]) simp
  ultimately show ?thesis using a b c d by simp
qed

text \<open>
  C2. When the embedding call returns its one vector and the similarity query does not
  raise, then for a positive \<open>top_k\<close> the list returned by \<open>search_chunks_by_doc\<close> has
  length \<open>min top_k n\<close>, with \<open>n\<close> the number of chunks of the document whose embedding
  vector is non-null. The tables satisfy the invariants of the data model.
\<close>

theorem search_chunks_by_doc_length:
  assumes emb: "fst (get_embeddings env [query] w) = Inr [v]"
      and db: "fst (execute_query env (Search_sql (embedding_str env v) doc_name top_k)
                     False True False w') = Inr rows"
      and k: "0 < top_k"
      and wf: "wf_tables (store w)"
  shows "\<exists>result. fst (search_chunks_by_doc env doc_name query top_k w) = Inr result
           \<and> int (length result) = min top_k (int (length (embedded_chunks_of (store w) doc_name)))"
proof -
  let ?qv = "embedding_str env v"
  from db have pa: "pool_acquire env = None" and df: "db_fault env (Search_sql ?qv doc_name top_k) = None"
    by (auto simp: execute_query_search_result split: option.splits)
  obtain result where tr: "to_results (search_rows env (store w) ?qv doc_name top_k) = Inr result"
    using to_results_search_rows by blast
  have res: "fst (search_chunks_by_doc env doc_name query top_k w) = Inr result"
    using emb pa df tr by (simp add: search_chunks_by_doc_fst)
  have "length result = min (nat top_k) (length (embedded_chunks_of (store w) doc_name))"
    using length_to_results [OF tr] length_search_rows length_hits [OF wf] by simp
  with k have "int (length result) = min top_k (int (length (embedded_chunks_of (store w) doc_name)))"
    by auto
  with res show ?thesis by blast
qed

theorem search_chunks_by_doc_length_witness:
  "fst (get_embeddings guide_env [''what is X''] guide_world) = Inr [[1]]
   \<and> fst (execute_query guide_env (Search_sql (embedding_str guide_env [1]) ''guide.pdf'' 2)
            False True False guide_world)
       = Inr (All [Chunk_row 1 2 (Some ''beta'') (Some (12 / 100)) (Some ''guide.pdf''),
                   Chunk_row 1 1 (Some ''alpha'') (Some (45 / 100)) (Some ''guide.pdf'')])
   \<and> (0::int) < 2
   \<and> wf_tables (store guide_world)
   \<and> length (embedded_chunks_of (store guide_world) ''guide.pdf'') = 3
   \<and> (\<exists>result. fst (search_chunks_by_doc guide_env ''guide.pdf'' ''what is X'' 2 guide_world) = Inr result
         \<and> int (length result) = min 2 (int (length (embedded_chunks_of (store guide_world) ''guide.pdf''))))"
proof -
  have db: "fst (execute_query guide_env (Search_sql (embedding_str guide_env [1]) ''guide.pdf'' 2)
            False True False guide_world)
       = Inr (All [Chunk_row 1 2 (Some ''beta'') (Some (12 / 100)) (Some ''guide.pdf''),
                   Chunk_row 1 1 (Some ''alpha'') (Some (45 / 100)) (Some ''guide.pdf'')])"
    by (simp only: guide_embedding_str guide_execute)
  have k: "(0::int) < 2" by simp
  have n: "length (embedded_chunks_of (store guide_world) ''guide.pdf'') = 3"
    by (simp add: guide_embedded guide_tables_def)
  from search_chunks_by_doc_length [OF guide_embed db k guide_wf] guide_embed db k guide_wf n
  show ?thesis by blast
qed

text \<open>
  C3. The list returned by \<open>search_chunks_by_doc\<close> is ordered by the distance to the
  query vector. With \<open>v\<close> the vector that the embedding adapter returned for the query,
  the database measures against \<open>v\<close> as it parses it back from the bracketed
  comma-separated literal. Each result comes from an embedded chunk of the document and
  carries the distance between that chunk's stored vector and this query vector; the
  distances are non-decreasing along the list; and the first is no greater than the
  distance of any embedded chunk of the document.
\<close>

theorem search_chunks_by_doc_ordered:
  assumes emb: "fst (get_embeddings env [query] w) = Inr [v]"
      and res: "fst (search_chunks_by_doc env doc_name query top_k w) = Inr result"
      and wf: "wf_tables (store w)"
  shows "\<exists>cs ds.
           list_all2 (\<lambda>r c. c \<in> set (embedded_chunks_of (store w) doc_name)
                        \<and> job_id r = c_job_id c \<and> chunk_id r = c_chunk_id c
                        \<and> (\<exists>u. c_embed_vector c = Some u
                              \<and> similarity r =
                                  Some (vector_distance env u (to_vector env (vector_literal env v)))))
             result cs
         \<and> map similarity result = map Some ds
         \<and> sorted ds
         \<and> (\<forall>c\<in>set (embedded_chunks_of (store w) doc_name). \<forall>u.
                c_embed_vector c = Some u \<longrightarrow> ds \<noteq> [] \<longrightarrow>
                hd ds \<le> vector_distance env u (to_vector env (vector_literal env v)))"
proof -
  let ?qv = "to_vector env (vector_literal env v)"
  have expr: "similarity_expr env (embedding_str env v) c = Some (vector_distance env u ?qv)"
    if "c_embed_vector c = Some u" for c u
    using that by (simp add: similarity_expr_def embedding_str_literal)
  have vec: "\<exists>u. c_embed_vector c = Some u"
    if "c \<in> set (embedded_chunks_of (store w) doc_name)" for c
    using that by (auto simp: embedded_chunks_of_def)
  from search_chunks_by_doc_sorted_rows [OF emb res wf] obtain cs ds where
    corr: "list_all2 (\<lambda>r c. c \<in> set (embedded_chunks_of (store w) doc_name)
                        \<and> job_id r = c_job_id c \<and> chunk_id r = c_chunk_id c
                        \<and> similarity r = similarity_expr env (embedding_str env v) c) result cs"
    and sims: "map similarity result = map Some ds"
    and sorted: "sorted ds"
    and least: "\<forall>c\<in>set (embedded_chunks_of (store w) doc_name). \<forall>d.
                similarity_expr env (embedding_str env v) c = Some d \<longrightarrow> ds \<noteq> [] \<longrightarrow> hd ds \<le> d"
    by blast
  have corr': "list_all2 (\<lambda>r c. c \<in> set (embedded_chunks_of (store w) doc_name)
                        \<and> job_id r = c_job_id c \<and> chunk_id r = c_chunk_id c
                        \<and> (\<exists>u. c_embed_vector c = Some u
                              \<and> similarity r = Some (vector_distance env u ?qv)))
             result cs"
  proof (rule list_all2_mono [OF corr])
    fix r :: query_result and c :: chunk
    assume a: "c \<in> set (embedded_chunks_of (store w) doc_name)
                        \<and> job_id r = c_job_id c \<and> chunk_id r = c_chunk_id c
                        \<and> similarity r = similarity_expr env (embedding_str env v) c"
    then obtain u where u: "c_embed_vector c = Some u" using vec by blast
    with a expr [OF u] show "c \<in> set (embedded_chunks_of (store w) doc_name)
                        \<and> job_id r = c_job_id c \<and> chunk_id r = c_chunk_id c
                        \<and> (\<exists>u. c_embed_vector c = Some u
                              \<and> similarity r = Some (vector_distance env u ?qv))"
      by simp
  qed
  have least': "\<forall>c\<in>set (embedded_chunks_of (store w) doc_name). \<forall>u.
                c_embed_vector c = Some u \<longrightarrow> ds \<noteq> [] \<longrightarrow> hd ds \<le> vector_distance env u ?qv"
    using least expr by blast
  from corr' sims sorted least' show ?thesis by blast
qed

theorem search_chunks_by_doc_ordered_witness:
  "fst (get_embeddings compass_env [''what is X''] compass_world) = Inr [[1, 0]]
   \<and> fst (get_embeddings compass_env [''what is Y''] compass_world) = Inr [[0, 1]]
   \<and> to_vector compass_env (vector_literal compass_env [1, 0]) = [1, 0]
   \<and> to_vector compass_env (vector_literal compass_env [0, 1]) = [0, 1]
   \<and> fst (search_chunks_by_doc compass_env ''guide.pdf'' ''what is X'' 2 compass_world)
       = Inr [compass_result 2 ''beta'' (2 / 10), compass_result 1 ''alpha'' (4 / 10)]
   \<and> fst (search_chunks_by_doc compass_env ''guide.pdf'' ''what is Y'' 2 compass_world)
       = Inr [compass_result 3 ''gamma'' 0, compass_result 1 ''alpha'' (2 / 10)]
   \<and> wf_tables (store compass_world)
   \<and> (\<exists>cs ds.
           list_all2 (\<lambda>r c. c \<in> set (embedded_chunks_of (store compass_world) ''guide.pdf'')
                        \<and> job_id r = c_job_id c \<and> chunk_id r = c_chunk_id c
                        \<and> (\<exists>u. c_embed_vector c = Some u
                              \<and> similarity r =
                                  Some (vector_distance compass_env u
                                          (to_vector compass_env (vector_literal compass_env [1, 0])))))
             [compass_result 2 ''beta'' (2 / 10), compass_result 1 ''alpha'' (4 / 10)] cs
         \<and> map similarity [compass_result 2 ''beta'' (2 / 10), compass_result 1 ''alpha'' (4 / 10)]
             = map Some ds
         \<and> sorted ds
         \<and> (\<forall>c\<in>set (embedded_chunks_of (store compass_world) ''guide.pdf''). \<forall>u.
                c_embed_vector c = Some u \<longrightarrow> ds \<noteq> [] \<longrightarrow>
                hd ds \<le> vector_distance compass_env u
                           (to_vector compass_env (vector_literal compass_env [1, 0]))))
   \<and> (\<exists>cs ds.
           list_all2 (\<lambda>r c. c \<in> set (embedded_chunks_of (store compass_world) ''guide.pdf'')
                        \<and> job_id r = c_job_id c \<and> chunk_id r = c_chunk_id c
                        \<and> (\<exists>u. c_embed_vector c = Some u
                              \<and> similarity r =
                                  Some (vector_distance compass_env u
                                          (to_vector compass_env (vector_literal compass_env [0, 1])))))
             [compass_result 3 ''gamma'' 0, compass_result 1 ''alpha'' (2 / 10)] cs
         \<and> map similarity [compass_result 3 ''gamma'' 0, compass_result 1 ''alpha'' (2 / 10)]
             = map Some ds
         \<and> sorted ds
         \<and> (\<forall>c\<in>set (embedded_chunks_of (store compass_world) ''guide.pdf''). \<forall>u.
                c_embed_vector c = Some u \<longrightarrow> ds \<noteq> [] \<longrightarrow>
                hd ds \<le> vector_distance compass_env u
                           (to_vector compass_env (vector_literal compass_env [0, 1]))))"
proof -
  have tv: "to_vector compass_env (vector_literal compass_env [1, 0]) = [1, 0]"
    "to_vector compass_env (vector_literal compass_env [0, 1]) = [0, 1]"
    by (simp_all add: compass_literal_X compass_literal_Y) (simp_all add: compass_env_def)
  note x = search_chunks_by_doc_ordered [OF compass_embed_X compass_search_X compass_wf]
  note y = search_chunks_by_doc_ordered [OF compass_embed_Y compass_search_Y compass_wf]
  from x y tv compass_embed_X compass_embed_Y compass_search_X compass_search_Y compass_wf
  show ?thesis by (intro conjI)
qed

text \<open>
  C4. Every result of \<open>search_chunks_by_doc\<close> comes from a stored chunk whose embedding
  vector is non-null and whose owning job carries the requested document name; the
  result names that document.
\<close>

theorem search_chunks_by_doc_scoped:
  assumes res: "fst (search_chunks_by_doc env doc_name query top_k w) = Inr result"
      and r: "r \<in> set result"
  shows "\<exists>c\<in>set (doc_chunks (store w)). \<exists>j\<in>set (doc_ingest_jobs (store w)).
           j_job_id j = c_job_id c \<and> j_object_name j = Some doc_name \<and> c_embed_vector c \<noteq> None
         \<and> job_id r = c_job_id c \<and> chunk_id r = c_chunk_id c \<and> object_name r = doc_name"
proof -
  from r have ne: "result \<noteq> []" by auto
  from search_chunks_by_doc_hits [OF res ne] obtain v hs where
    hs: "set hs \<subseteq> {cj \<in> set (joined (store w)). hit doc_name cj}"
    and all2: "list_all2 (\<lambda>cj r. to_result (select_row env (embedding_str env v) cj) = Inr r) hs result"
    by blast
  from list_all2_in_set [OF all2 r] obtain cj where
    cj: "cj \<in> set hs" "to_result (select_row env (embedding_str env v) cj) = Inr r"
    by blast
  from cj(1) hs have j: "cj \<in> set (joined (store w))" and h: "hit doc_name cj" by auto
  from j have mem: "fst cj \<in> set (doc_chunks (store w))" "snd cj \<in> set (doc_ingest_jobs (store w))"
      "j_job_id (snd cj) = c_job_id (fst cj)"
    by (auto simp: set_joined)
  from h have nm: "j_object_name (snd cj) = Some doc_name" "c_embed_vector (fst cj) \<noteq> None"
    by (auto simp: hit_def sql_eq_bind)
  from to_result_hit [OF h cj(2)] mem nm show ?thesis by blast
qed

theorem search_chunks_by_doc_scoped_witness:
  "fst (search_chunks_by_doc guide_env ''guide.pdf'' ''what is X'' 2 guide_world)
       = Inr [beta_result, alpha_result]
   \<and> alpha_result \<in> set [beta_result, alpha_result]
   \<and> (\<exists>c\<in>set (doc_chunks (store guide_world)). \<exists>j\<in>set (doc_ingest_jobs (store guide_world)).
           j_job_id j = c_job_id c \<and> j_object_name j = Some ''guide.pdf'' \<and> c_embed_vector c \<noteq> None
         \<and> job_id alpha_result = c_job_id c \<and> chunk_id alpha_result = c_chunk_id c
         \<and> object_name alpha_result = ''guide.pdf'')"
proof -
  have m: "alpha_result \<in> set [beta_result, alpha_result]" by simp
  from search_chunks_by_doc_scoped [OF guide_search m] guide_search m
  show ?thesis by blast
qed

text \<open>
  C5. The \<open>chunk_text\<close> of every result of \<open>search_chunks_by_doc\<close> is the first 8000
  characters of the stored text of its chunk (a null text read as empty): a prefix of
  the stored text, of length at most 8000, whatever the length of the stored text.
\<close>

theorem search_chunks_by_doc_text_bounded:
  assumes res: "fst (search_chunks_by_doc env doc_name query top_k w) = Inr result"
      and r: "r \<in> set result"
  shows "\<exists>c\<in>set (embedded_chunks_of (store w) doc_name).
           job_id r = c_job_id c \<and> chunk_id r = c_chunk_id c
         \<and> chunk_text r = take 8000 (or_empty (c_chunk_text c))
         \<and> prefix (chunk_text r) (or_empty (c_chunk_text c))
         \<and> length (chunk_text r) \<le> 8000"
proof -
  from r have ne: "result \<noteq> []" by auto
  from search_chunks_by_doc_hits [OF res ne] obtain v hs where
    hs: "set hs \<subseteq> {cj \<in> set (joined (store w)). hit doc_name cj}"
    and all2: "list_all2 (\<lambda>cj r. to_result (select_row env (embedding_str env v) cj) = Inr r) hs result"
    by blast
  from list_all2_in_set [OF all2 r] obtain cj where
    cj: "cj \<in> set hs" "to_result (select_row env (embedding_str env v) cj) = Inr r"
    by blast
  from cj(1) hs have j: "cj \<in> set (joined (store w))" and h: "hit doc_name cj" by auto
  have em: "fst cj \<in> set (embedded_chunks_of (store w) doc_name)"
    by (rule hit_embedded [OF j h])
  have t: "chunk_text r = take 8000 (or_empty (c_chunk_text (fst cj)))"
    and ids: "job_id r = c_job_id (fst cj)" "chunk_id r = c_chunk_id (fst cj)"
    using to_result_hit [OF h cj(2)] by auto
  have "prefix (chunk_text r) (or_empty (c_chunk_text (fst cj)))"
    unfolding t by (rule take_is_prefix)
  moreover have "length (chunk_text r) \<le> 8000"
    unfolding t by simp
  ultimately show ?thesis using em t ids by blast
qed

theorem search_chunks_by_doc_text_bounded_witness:
  "fst (search_chunks_by_doc guide_env ''guide.pdf'' ''what is X'' 2 guide_world)
       = Inr [beta_result, alpha_result]
   \<and> beta_result \<in> set [beta_result, alpha_result]
   \<and> (\<exists>c\<in>set (embedded_chunks_of (store guide_world) ''guide.pdf'').
           job_id beta_result = c_job_id c \<and> chunk_id beta_result = c_chunk_id c
         \<and> chunk_text beta_result = take 8000 (or_empty (c_chunk_text c))
         \<and> prefix (chunk_text beta_result) (or_empty (c_chunk_text c))
         \<and> length (chunk_text beta_result) \<le> 8000)"
proof -
  have m: "beta_result \<in> set [beta_result, alpha_result]" by simp
  from search_chunks_by_doc_text_bounded [OF guide_search m] guide_search m
  show ?thesis by blast
qed

text \<open>
  C6. When retrieval returns a non-empty list, the RAG branch enters the chat adapter
  right after retrieval, with the question and with a context that is the chunk texts of
  the results in their order, two newline characters between neighbours: nothing
  dropped, cut or reordered.
\<close>

theorem ask_rag_context:
  assumes q: "strip query \<noteq> []"
      and cfg: "oci_config env = None"
      and res: "search_chunks_by_doc env selected_doc (strip query) top_k w = (Inr (c # cs), w1)"
  shows "\<exists>rest. calls (snd (ask_rag env selected_doc query top_k w)) =
           calls w1 @ Chat_with_context
                        (chunk_text c @ concat (map (\<lambda>r. [CHR 0x0A, CHR 0x0A] @ chunk_text r) cs))
                        (strip query) # rest"
proof -
  let ?ctx = "str_join (nl @ nl) (map chunk_text (c # cs))"
  have ctx: "?ctx = chunk_text c @ concat (map (\<lambda>r. [CHR 0x0A, CHR 0x0A] @ chunk_text r) cs)"
    by (simp add: str_join_Cons nl_def o_def)
  have "snd (ask_rag env selected_doc query top_k w) =
          snd (chat_with_context env ?ctx (strip query) w1)"
    using q cfg res
    by (simp add: ask_rag_def search_step_def Let_def split: prod.splits sum.splits)
  then show ?thesis
    using chat_with_context_calls [of env ?ctx "strip query" w1] by (simp only: ctx)
qed

theorem ask_rag_context_witness:
  "strip ''  what is X '' \<noteq> []
   \<and> oci_config guide_env = None
   \<and> search_chunks_by_doc guide_env ''guide.pdf'' (strip ''  what is X '') 2 guide_world
       = (Inr (beta_result # [alpha_result]), guide_searched)
   \<and> chunk_text beta_result @ concat (map (\<lambda>r. [CHR 0x0A, CHR 0x0A] @ chunk_text r) [alpha_result])
       = ''beta'' @ [CHR 0x0A, CHR 0x0A] @ ''alpha''
   \<and> (\<exists>rest. calls (snd (ask_rag guide_env ''guide.pdf'' ''  what is X '' 2 guide_world)) =
           calls guide_searched @ Chat_with_context
               (chunk_text beta_result
                  @ concat (map (\<lambda>r. [CHR 0x0A, CHR 0x0A] @ chunk_text r) [alpha_result]))
               (strip ''  what is X '') # rest)"
proof -
  have st: "strip ''  what is X '' = ''what is X''"
    by (simp add: strip_def is_space_def)
  have q: "strip ''  what is X '' \<noteq> []"
    by (simp add: st)
  have cfg: "oci_config guide_env = None"
    by (simp add: guide_env_def)
  have res: "search_chunks_by_doc guide_env ''guide.pdf'' (strip ''  what is X '') 2 guide_world
       = (Inr (beta_result # [alpha_result]), guide_searched)"
    by (simp only: st guide_search_pair)
  have ctx: "chunk_text beta_result @ concat (map (\<lambda>r. [CHR 0x0A, CHR 0x0A] @ chunk_text r) [alpha_result])
       = ''beta'' @ [CHR 0x0A, CHR 0x0A] @ ''alpha''"
    by (simp add: beta_result_def alpha_result_def)
  from ask_rag_context [OF q cfg res] q cfg res ctx
  show ?thesis by blast
qed

text \<open>
  C7. When retrieval returns the empty list, the RAG branch ends with the message that
  no chunks were found, shows no answer, and makes no call into the chat adapter nor to
  the hosted chat service.
\<close>

theorem ask_rag_short_circuit:
  assumes q: "strip query \<noteq> []"
      and res: "fst (search_chunks_by_doc env selected_doc (strip query) top_k w) = Inr []"
  shows "(\<exists>shown. fst (ask_rag env selected_doc query top_k w) =
            Inr (shown @ [St_info ''No chunks found. Cannot generate an answer.''])
            \<and> (\<forall>m\<in>set shown. \<exists>msg. m = St_error msg))
       \<and> (\<exists>evs. calls (snd (ask_rag env selected_doc query top_k w)) = calls w @ evs
             \<and> (\<forall>ev\<in>set evs. \<not> chat_call ev))"
proof (cases "oci_config env")
  case (Some e)
  then have "ask_rag env selected_doc query top_k w =
     (Inr ([St_error (''Search failed: '' @ exn_str e)] @ [St_info ''No chunks found. Cannot generate an answer.'']), w)"
    using q by (simp add: ask_rag_def search_step_def)
  then show ?thesis by auto
next
  case None
  obtain w1 where s: "search_chunks_by_doc env selected_doc (strip query) top_k w = (Inr [], w1)"
    using res by (cases "search_chunks_by_doc env selected_doc (strip query) top_k w") auto
  from search_chunks_by_doc_calls [of env selected_doc "strip query" top_k w] s obtain evs where
    evs: "calls w1 = calls w @ evs"
    and kinds: "\<forall>ev\<in>set evs. (\<exists>texts. ev = Embed_text texts)
              \<or> (\<exists>d. ev = Cursor_execute (Count_sql d))
              \<or> (\<exists>qv d k. ev = Cursor_execute (Search_sql qv d k))"
    by auto
  from kinds have nochat: "\<forall>ev\<in>set evs. \<not> chat_call ev" by auto
  have "ask_rag env selected_doc query top_k w =
     (Inr ([] @ [St_info ''No chunks found. Cannot generate an answer.'']), w1)"
    using q None s by (simp add: ask_rag_def search_step_def)
  with evs nochat show ?thesis by auto
qed

theorem ask_rag_short_circuit_witness:
  "strip ''what is X'' \<noteq> []
   \<and> fst (search_chunks_by_doc guide_env ''empty.pdf'' (strip ''what is X'') 2 guide_world) = Inr []
   \<and> ((\<exists>shown. fst (ask_rag guide_env ''empty.pdf'' ''what is X'' 2 guide_world) =
            Inr (shown @ [St_info ''No chunks found. Cannot generate an answer.''])
            \<and> (\<forall>m\<in>set shown. \<exists>msg. m = St_error msg))
       \<and> (\<exists>evs. calls (snd (ask_rag guide_env ''empty.pdf'' ''what is X'' 2 guide_world))
                  = calls guide_world @ evs
             \<and> (\<forall>ev\<in>set evs. \<not> chat_call ev)))"
proof -
  have q: "strip ''what is X'' \<noteq> []"
    by (simp add: guide_strip)
  have res: "fst (search_chunks_by_doc guide_env ''empty.pdf'' (strip ''what is X'') 2 guide_world) = Inr []"
    by (simp only: guide_strip guide_empty_search)
  from ask_rag_short_circuit [OF q res] q res
  show ?thesis by blast
qed

text \<open>
  C8. \<open>chat_with_context\<close> never raises: for every context and question its result is a
  returned value. That value is \<open>None\<close> when the client cannot be built and when the
  call to the hosted service raises. When the call answers, the value is the reply found
  at the first present attribute path of the response, and \<open>None\<close> when no path is
  present; in particular a response that carries its text at
  \<open>data.chat_response.text\<close>, with no \<open>message\<close> and no \<open>content\<close> beside it, gives
  that text.
\<close>

theorem chat_with_context_never_raises:
  "(\<exists>reply. fst (chat_with_context env context question w) = Inr reply)
   \<and> (chat_client env \<noteq> None \<longrightarrow> fst (chat_with_context env context question w) = Inr None)
   \<and> ((\<exists>e. client_chat env (chat_prompt context question) = Inl e) \<longrightarrow>
         fst (chat_with_context env context question w) = Inr None)
   \<and> (\<forall>response.
         chat_client env = None
         \<and> client_chat env (chat_prompt context question) = Inr response \<longrightarrow>
         fst (chat_with_context env context question w) =
           Inr (case first_present (reply_paths response) of
                  Missing \<Rightarrow> None
                | Attr reply \<Rightarrow> reply))
   \<and> (\<forall>response data chat_resp reply.
         chat_client env = None
         \<and> client_chat env (chat_prompt context question) = Inr response
         \<and> rp_data response = Attr data
         \<and> cd_chat_response data = Attr chat_resp
         \<and> cr_message chat_resp = Missing
         \<and> cr_content chat_resp = Missing
         \<and> cr_text chat_resp = Attr reply \<longrightarrow>
         fst (chat_with_context env context question w) = Inr reply)"
proof -
  have val: "fst (chat_with_context env context question w) =
     Inr (case chat_client env of
            Some e \<Rightarrow> None
          | None \<Rightarrow>
              (case client_chat env (chat_prompt context question) of
                 Inl e \<Rightarrow> None
               | Inr response \<Rightarrow>
                   (case returned_attr response of Missing \<Rightarrow> None | Attr reply \<Rightarrow> reply)))"
    by (simp add: chat_with_context_def chat_try_def Let_def
             split: option.splits sum.splits attr.splits)
  have a: "\<exists>reply. fst (chat_with_context env context question w) = Inr reply"
    using val by blast
  have b: "chat_client env \<noteq> None \<longrightarrow> fst (chat_with_context env context question w) = Inr None"
    using val by auto
  have c: "(\<exists>e. client_chat env (chat_prompt context question) = Inl e) \<longrightarrow>
         fst (chat_with_context env context question w) = Inr None"
    using val by (auto split: option.splits)
  have d: "\<forall>response.
         chat_client env = None
         \<and> client_chat env (chat_prompt context question) = Inr response \<longrightarrow>
         fst (chat_with_context env context question w) =
           Inr (case first_present (reply_paths response) of
                  Missing \<Rightarrow> None
                | Attr reply \<Rightarrow> reply)"
    using val by (simp add: returned_attr_paths)
  have e: "\<forall>response data chat_resp reply.
         chat_client env = None
         \<and> client_chat env (chat_prompt context question) = Inr response
         \<and> rp_data response = Attr data
         \<and> cd_chat_response data = Attr chat_resp
         \<and> cr_message chat_resp = Missing
         \<and> cr_content chat_resp = Missing
         \<and> cr_text chat_resp = Attr reply \<longrightarrow>
         fst (chat_with_context env context question w) = Inr reply"
    using val by (simp add: returned_attr_def)
  from a b c d e show ?thesis by blast
qed

theorem chat_with_context_never_raises_witness:
  "chat_client no_chat_client_env \<noteq> None
   \<and> fst (chat_with_context no_chat_client_env ''beta'' ''what is X'' guide_world) = Inr None
   \<and> client_chat failing_chat_env (chat_prompt ''beta'' ''what is X'') = Inl (Exn ''503 Service Unavailable'')
   \<and> fst (chat_with_context failing_chat_env ''beta'' ''what is X'' guide_world) = Inr None
   \<and> chat_client odd_shape_env = None
   \<and> client_chat odd_shape_env (chat_prompt ''beta'' ''what is X'')
       = Inr \<lparr>rp_data = Missing, rp_content = Missing\<rparr>
   \<and> fst (chat_with_context odd_shape_env ''beta'' ''what is X'' guide_world) = Inr None
   \<and> chat_client guide_env = None
   \<and> client_chat guide_env (chat_prompt ''beta'' ''what is X'') = Inr guide_reply
   \<and> fst (chat_with_context guide_env ''beta'' ''what is X'' guide_world)
       = Inr (Some ''X is the first letter.'')"
proof -
  have h1: "chat_client no_chat_client_env \<noteq> None"
    by (simp add: no_chat_client_env_def)
  have h2: "client_chat failing_chat_env (chat_prompt ''beta'' ''what is X'') = Inl (Exn ''503 Service Unavailable'')"
    by (simp add: failing_chat_env_def)
  have h3: "chat_client odd_shape_env = None"
    "client_chat odd_shape_env (chat_prompt ''beta'' ''what is X'')
       = Inr \<lparr>rp_data = Missing, rp_content = Missing\<rparr>"
    by (simp_all add: odd_shape_env_def guide_env_def)
  have h4: "chat_client guide_env = None"
    "client_chat guide_env (chat_prompt ''beta'' ''what is X'') = Inr guide_reply"
    by (simp_all add: guide_env_def)
  have p: "first_present (reply_paths \<lparr>rp_data = Missing, rp_content = Missing\<rparr>) = Missing"
    by (simp add: reply_paths_def attr_bind_def)
  have s: "rp_data guide_reply = Attr \<lparr>cd_chat_response =
                         Attr \<lparr>cr_message = Missing, cr_content = Missing,
                               cr_text = Attr (Some ''X is the first letter.'')\<rparr>,
                       cd_content = Missing\<rparr>"
    by (simp add: guide_reply_def)
  have r1: "fst (chat_with_context no_chat_client_env ''beta'' ''what is X'' guide_world) = Inr None"
    using chat_with_context_never_raises [of no_chat_client_env "''beta''" "''what is X''" guide_world] h1
    by blast
  have r2: "fst (chat_with_context failing_chat_env ''beta'' ''what is X'' guide_world) = Inr None"
    using chat_with_context_never_raises [of failing_chat_env "''beta''" "''what is X''" guide_world] h2
    by blast
  have r3: "fst (chat_with_context odd_shape_env ''beta'' ''what is X'' guide_world) = Inr None"
    using chat_with_context_never_raises [of odd_shape_env "''beta''" "''what is X''" guide_world] h3 p
    by simp
  have r4: "fst (chat_with_context guide_env ''beta'' ''what is X'' guide_world)
       = Inr (Some ''X is the first letter.'')"
    using chat_with_context_never_raises [of guide_env "''beta''" "''what is X''" guide_world] h4 s
    by (simp add: reply_paths_def attr_bind_def guide_reply_def)
  from h1 h2 h3 h4 r1 r2 r3 r4 show ?thesis by blast
qed

text \<open>
  C9. \<open>search_chunks_by_doc\<close> is read-only: the store after the call is the store before
  it, and the calls it adds contain no commit and no statement other than its two
  queries.
\<close>

theorem search_chunks_by_doc_read_only:
  "store (snd (search_chunks_by_doc env doc_name query top_k w)) = store w
   \<and> (\<exists>evs. calls (snd (search_chunks_by_doc env doc_name query top_k w)) = calls w @ evs
         \<and> (\<forall>ev\<in>set evs. \<not> store_write ev))"
proof -
  from search_chunks_by_doc_calls [of env doc_name query top_k w] obtain evs where
    evs: "calls (snd (search_chunks_by_doc env doc_name query top_k w)) = calls w @ evs"
    and kinds: "\<forall>ev\<in>set evs. (\<exists>texts. ev = Embed_text texts)
              \<or> (\<exists>d. ev = Cursor_execute (Count_sql d))
              \<or> (\<exists>qv d k. ev = Cursor_execute (Search_sql qv d k))"
    by blast
  from kinds have "\<forall>ev\<in>set evs. \<not> store_write ev" by auto
  with evs search_chunks_by_doc_store show ?thesis by blast
qed

theorem search_chunks_by_doc_read_only_witness:
  "calls (snd (search_chunks_by_doc guide_env ''guide.pdf'' ''what is X'' 2 guide_world))
     = calls guide_world @ [Embed_text [''what is X''],
                            Cursor_execute (Count_sql ''guide.pdf''),
                            Cursor_execute (Search_sql ''[1.0]'' ''guide.pdf'' 2)]
   \<and> store (snd (search_chunks_by_doc guide_env ''guide.pdf'' ''what is X'' 2 guide_world))
       = store guide_world
   \<and> (\<exists>evs. calls (snd (search_chunks_by_doc guide_env ''guide.pdf'' ''what is X'' 2 guide_world))
              = calls guide_world @ evs
         \<and> (\<forall>ev\<in>set evs. \<not> store_write ev))"
proof -
  have c: "calls (snd (search_chunks_by_doc guide_env ''guide.pdf'' ''what is X'' 2 guide_world))
     = calls guide_world @ [Embed_text [''what is X''],
                            Cursor_execute (Count_sql ''guide.pdf''),
                            Cursor_execute (Search_sql ''[1.0]'' ''guide.pdf'' 2)]"
    by (simp add: guide_search_world) (simp add: guide_searched_def guide_world_def)
  from search_chunks_by_doc_read_only [of guide_env "''guide.pdf''" "''what is X''" 2 guide_world] c
  show ?thesis by blast
qed

text \<open>
  C10. Called with an empty list of texts, \<open>get_embeddings\<close> returns the empty list at
  once: it does not raise, and the world is the one it was given, so no call to the
  hosted embedding service (nor any other external call) has been made.
\<close>

theorem get_embeddings_empty:
  "get_embeddings env [] w = (Inr [], w)"
  by (simp add: get_embeddings_def)


end
